theory Spec2Isabelle
  imports Complex_Main "HOL-Library.Word"
begin

unbundle bit_operations_syntax

section \<open>Two scripts that draw a rotating cube\<close>

text \<open>
  The repository holds two near-identical browser scripts: \<^verbatim>\<open>src/script.js\<close> (one
  cube face, 6 indices) and a second one (two faces, 12 indices, and a tint
  that changes with time). Definitions that end in \<open>1\<close> embed the first script,
  those that end in \<open>2\<close> the second; \<open>createShader\<close>, \<open>initShaderProgram\<close> and
  \<open>initBuffers\<close> are the same text in both and are embedded once.

  What the scripts do is call a graphics context, the console, the clock and the
  frame scheduler of the page. None of these is code of the repository, so:
  \<^item> every call on the graphics context is appended to \<open>calls\<close>, oldest first;
    the context is taken to exist and to make a new object at every
    \<open>createShader\<close>, \<open>createProgram\<close> and \<open>createBuffer\<close>;
  \<^item> a call that is given null where the context takes an object raises a
    \<open>TypeError\<close>: in these scripts \<open>attachShader\<close> for its shader, and
    \<open>getAttribLocation\<close> and \<open>getUniformLocation\<close> for their program. Nothing
    catches it, so the script ends there; the call is not among \<open>calls\<close>, the
    error names it. \<open>useProgram\<close> takes null;
  \<^item> whether a shader compiles, whether a program links, the diagnostic texts and
    the attribute and uniform locations are answers of the page, collected in the
    record \<open>host\<close>, as is every reading of its clock;
  \<^item> a JavaScript number is a \<open>real\<close> (rounding of doubles is left out); the one
    division, \<open>canvas.width / canvas.height\<close>, is written out for a zero height;
  \<^item> the matrix utility \<open>mat4\<close> is not interpreted: a matrix is the term of the
    calls that built it.
\<close>

subsection \<open>Numbers and matrices\<close>

datatype number = Finite real | Infinity | NaN

text \<open>\<open>canvas.width / canvas.height\<close> on the two unsigned canvas dimensions.\<close>

definition divide_js :: "nat \<Rightarrow> nat \<Rightarrow> number" where
  "divide_js a b =
     (if b = 0 then (if a = 0 then NaN else Infinity) else Finite (real a / real b))"

type_synonym vec3 = "real \<times> real \<times> real"

text \<open>
  \<open>mat4.create()\<close>, \<open>mat4.perspective(out, fovy, aspect, near, far)\<close>,
  \<open>mat4.translate(out, a, v)\<close> and \<open>mat4.rotate(out, a, rad, axis)\<close>: each stores
  its result in \<open>out\<close>, and the term keeps the remaining arguments.
\<close>

datatype mat4 =
    Mat4_create
  | Mat4_perspective real number real real
  | Mat4_translate mat4 vec3
  | Mat4_rotate mat4 real vec3

subsection \<open>The graphics context\<close>

datatype shader_type = VERTEX_SHADER | FRAGMENT_SHADER
datatype parameter = COMPILE_STATUS | LINK_STATUS
datatype buffer_target = ARRAY_BUFFER | ELEMENT_ARRAY_BUFFER
datatype usage = STATIC_DRAW
datatype capability = DEPTH_TEST
datatype draw_mode = TRIANGLES
datatype data_type = FLOAT | UNSIGNED_SHORT

definition COLOR_BUFFER_BIT :: "32 word" where "COLOR_BUFFER_BIT = 0x4000"
definition DEPTH_BUFFER_BIT :: "32 word" where "DEPTH_BUFFER_BIT = 0x100"

type_synonym handle = nat
type_synonym location = "nat option"

datatype array_data = Float32Array "real list" | Uint16Array "16 word list"

datatype gl_call =
    CreateShader shader_type
  | ShaderSource handle string
  | CompileShader handle
  | GetShaderParameter handle parameter
  | GetShaderInfoLog handle
  | DeleteShader handle
  | CreateProgram
  | AttachShader handle "handle option"
  | LinkProgram handle
  | GetProgramParameter handle parameter
  | GetProgramInfoLog handle
  | GetAttribLocation "handle option" string
  | GetUniformLocation "handle option" string
  | CreateBuffer
  | BindBuffer buffer_target handle
  | BufferData buffer_target array_data usage
  | ClearColor real real real real
  | Clear "32 word"
  | Enable capability
  | UseProgram "handle option"
  | UniformMatrix4fv location bool mat4
  | Uniform4fv location "real list"
  | VertexAttribPointer int nat data_type bool nat nat
  | EnableVertexAttribArray int
  | DrawElements draw_mode nat data_type nat

text \<open>The exception of a call that was given null in place of an object.\<close>

datatype error = TypeError gl_call

record shaderObj =
  shaderType :: shader_type
  shaderText :: string
  compiled :: bool

record programObj =
  attached :: "handle list"
  linked :: bool

text \<open>The answers of the page: its shader compiler and linker, and its clock.\<close>

record host =
  compiles :: "shader_type \<Rightarrow> string \<Rightarrow> bool"
  shaderLog :: "shader_type \<Rightarrow> string \<Rightarrow> string"
  links :: "shaderObj option list \<Rightarrow> bool"
  programLog :: "shaderObj option list \<Rightarrow> string"
  attribLocation :: "handle \<Rightarrow> string \<Rightarrow> int"
  uniformLocation :: "handle \<Rightarrow> string \<Rightarrow> location"
  clock :: "nat \<Rightarrow> real"

text \<open>
  The state the scripts act on: the calls made on the context and its shader and
  program objects, the lines written by \<open>console.error\<close>, the number of clock
  readings taken, the callbacks waiting at \<open>requestAnimationFrame\<close>, and the
  canvas size.
\<close>

record world =
  calls :: "gl_call list"
  nextId :: handle
  shaders :: "handle \<rightharpoonup> shaderObj"
  programs :: "handle \<rightharpoonup> programObj"
  console :: "(string \<times> string) list"
  reads :: nat
  scheduled :: nat
  canvas_width :: nat
  canvas_height :: nat

definition call :: "gl_call \<Rightarrow> world \<Rightarrow> world" where
  "call c w = w\<lparr>calls := calls w @ [c]\<rparr>"

definition gl_createShader :: "shader_type \<Rightarrow> world \<Rightarrow> handle \<times> world" where
  "gl_createShader ty w =
     (nextId w,
      call (CreateShader ty)
        (w\<lparr>nextId := Suc (nextId w),
           shaders := (shaders w)(nextId w \<mapsto>
             \<lparr>shaderType = ty, shaderText = [], compiled = False\<rparr>)\<rparr>))"

definition gl_shaderSource :: "handle \<Rightarrow> string \<Rightarrow> world \<Rightarrow> world" where
  "gl_shaderSource sh src w =
     call (ShaderSource sh src)
       (case shaders w sh of
          None \<Rightarrow> w
        | Some s \<Rightarrow> w\<lparr>shaders := (shaders w)(sh \<mapsto> s\<lparr>shaderText := src\<rparr>)\<rparr>)"

definition gl_compileShader :: "host \<Rightarrow> handle \<Rightarrow> world \<Rightarrow> world" where
  "gl_compileShader h sh w =
     call (CompileShader sh)
       (case shaders w sh of
          None \<Rightarrow> w
        | Some s \<Rightarrow>
            w\<lparr>shaders := (shaders w)(sh \<mapsto>
                 s\<lparr>compiled := compiles h (shaderType s) (shaderText s)\<rparr>)\<rparr>)"

definition gl_getShaderParameter :: "handle \<Rightarrow> parameter \<Rightarrow> world \<Rightarrow> bool \<times> world" where
  "gl_getShaderParameter sh p w =
     ((case shaders w sh of None \<Rightarrow> False | Some s \<Rightarrow> p = COMPILE_STATUS \<and> compiled s),
      call (GetShaderParameter sh p) w)"

definition gl_getShaderInfoLog :: "host \<Rightarrow> handle \<Rightarrow> world \<Rightarrow> string \<times> world" where
  "gl_getShaderInfoLog h sh w =
     ((case shaders w sh of
         None \<Rightarrow> []
       | Some s \<Rightarrow> shaderLog h (shaderType s) (shaderText s)),
      call (GetShaderInfoLog sh) w)"

definition gl_deleteShader :: "handle \<Rightarrow> world \<Rightarrow> world" where
  "gl_deleteShader sh w = call (DeleteShader sh) (w\<lparr>shaders := (shaders w)(sh := None)\<rparr>)"

definition gl_createProgram :: "world \<Rightarrow> handle \<times> world" where
  "gl_createProgram w =
     (nextId w,
      call CreateProgram
        (w\<lparr>nextId := Suc (nextId w),
           programs := (programs w)(nextId w \<mapsto> \<lparr>attached = [], linked = False\<rparr>)\<rparr>))"

definition gl_attachShader ::
  "handle \<Rightarrow> handle option \<Rightarrow> world \<Rightarrow> (error + unit) \<times> world" where
  "gl_attachShader pr shader w =
     (case shader of
        None \<Rightarrow> (Inl (TypeError (AttachShader pr None)), w)
      | Some sh \<Rightarrow>
          (Inr (),
           call (AttachShader pr (Some sh))
             (case programs w pr of
                None \<Rightarrow> w
              | Some p \<Rightarrow>
                  w\<lparr>programs := (programs w)(pr \<mapsto> p\<lparr>attached := attached p @ [sh]\<rparr>)\<rparr>)))"

text \<open>The stages the linker sees: a shader that was deleted is \<open>None\<close>.\<close>

definition stages :: "world \<Rightarrow> programObj \<Rightarrow> shaderObj option list" where
  "stages w p = map (shaders w) (attached p)"

definition gl_linkProgram :: "host \<Rightarrow> handle \<Rightarrow> world \<Rightarrow> world" where
  "gl_linkProgram h pr w =
     call (LinkProgram pr)
       (case programs w pr of
          None \<Rightarrow> w
        | Some p \<Rightarrow> w\<lparr>programs := (programs w)(pr \<mapsto> p\<lparr>linked := links h (stages w p)\<rparr>)\<rparr>)"

definition gl_getProgramParameter :: "handle \<Rightarrow> parameter \<Rightarrow> world \<Rightarrow> bool \<times> world" where
  "gl_getProgramParameter pr q w =
     ((case programs w pr of None \<Rightarrow> False | Some p \<Rightarrow> q = LINK_STATUS \<and> linked p),
      call (GetProgramParameter pr q) w)"

definition gl_getProgramInfoLog :: "host \<Rightarrow> handle \<Rightarrow> world \<Rightarrow> string \<times> world" where
  "gl_getProgramInfoLog h pr w =
     ((case programs w pr of None \<Rightarrow> [] | Some p \<Rightarrow> programLog h (stages w p)),
      call (GetProgramInfoLog pr) w)"

definition gl_getAttribLocation ::
  "host \<Rightarrow> handle option \<Rightarrow> string \<Rightarrow> world \<Rightarrow> (error + int) \<times> world" where
  "gl_getAttribLocation h program name w =
     (case program of
        None \<Rightarrow> (Inl (TypeError (GetAttribLocation None name)), w)
      | Some pr \<Rightarrow> (Inr (attribLocation h pr name), call (GetAttribLocation (Some pr) name) w))"

definition gl_getUniformLocation ::
  "host \<Rightarrow> handle option \<Rightarrow> string \<Rightarrow> world \<Rightarrow> (error + location) \<times> world" where
  "gl_getUniformLocation h program name w =
     (case program of
        None \<Rightarrow> (Inl (TypeError (GetUniformLocation None name)), w)
      | Some pr \<Rightarrow>
          (Inr (uniformLocation h pr name), call (GetUniformLocation (Some pr) name) w))"

text \<open>
  One statement after another: when the first raises, the rest does not run and the
  exception is the outcome.
\<close>

definition andThen ::
  "(error + 'a) \<times> world \<Rightarrow> ('a \<Rightarrow> world \<Rightarrow> (error + 'b) \<times> world) \<Rightarrow> (error + 'b) \<times> world" where
  "andThen r f = (case r of (Inl e, w) \<Rightarrow> (Inl e, w) | (Inr a, w) \<Rightarrow> f a w)"

definition gl_createBuffer :: "world \<Rightarrow> handle \<times> world" where
  "gl_createBuffer w = (nextId w, call CreateBuffer (w\<lparr>nextId := Suc (nextId w)\<rparr>))"

definition console_error :: "string \<Rightarrow> string \<Rightarrow> world \<Rightarrow> world" where
  "console_error msg detail w = w\<lparr>console := console w @ [(msg, detail)]\<rparr>"

definition Date_now :: "host \<Rightarrow> world \<Rightarrow> real \<times> world" where
  "Date_now h w = (clock h (reads w), w\<lparr>reads := Suc (reads w)\<rparr>)"

definition requestAnimationFrame :: "world \<Rightarrow> world" where
  "requestAnimationFrame w = w\<lparr>scheduled := Suc (scheduled w)\<rparr>"

subsection \<open>Shader setup and geometry upload (both scripts)\<close>

definition vertexShaderSource :: string where
  "vertexShaderSource =
     ''\<newline>    attribute vec4 aPosition;\<newline>    attribute vec4 aColor;\<newline>    uniform mat4 uModelViewMatrix;\<newline>    uniform mat4 uProjectionMatrix;\<newline>    varying lowp vec4 vColor;\<newline>\<newline>    void main(void) {\<newline>        gl_Position = uProjectionMatrix * uModelViewMatrix * aPosition;\<newline>        vColor = aColor;\<newline>    }\<newline>''"

definition createShader :: "host \<Rightarrow> shader_type \<Rightarrow> string \<Rightarrow> world \<Rightarrow> handle option \<times> world" where
  "createShader h ty src w0 =
     (let (shader, w1) = gl_createShader ty w0;
          w2 = gl_shaderSource shader src w1;
          w3 = gl_compileShader h shader w2;
          (status, w4) = gl_getShaderParameter shader COMPILE_STATUS w3
      in if \<not> status then
           (let (log, w5) = gl_getShaderInfoLog h shader w4;
                w6 = console_error ''Shader compilation failed:'' log w5;
                w7 = gl_deleteShader shader w6
            in (None, w7))
         else (Some shader, w4))"

definition initShaderProgram ::
  "host \<Rightarrow> string \<Rightarrow> string \<Rightarrow> world \<Rightarrow> (error + handle option) \<times> world" where
  "initShaderProgram h vertexSource fragmentSource w0 =
     (let (vertexShader, w1) = createShader h VERTEX_SHADER vertexSource w0;
          (fragmentShader, w2) = createShader h FRAGMENT_SHADER fragmentSource w1;
          (shaderProgram, w3) = gl_createProgram w2
      in andThen (gl_attachShader shaderProgram vertexShader w3) (\<lambda>_ w4.
         andThen (gl_attachShader shaderProgram fragmentShader w4) (\<lambda>_ w5.
           (let w6 = gl_linkProgram h shaderProgram w5;
                (status, w7) = gl_getProgramParameter shaderProgram LINK_STATUS w6
            in if \<not> status then
                 (let (log, w8) = gl_getProgramInfoLog h shaderProgram w7;
                      w9 = console_error ''Shader program linking failed:'' log w8
                  in (Inr None, w9))
               else (Inr (Some shaderProgram), w7)))))"

record buffers =
  position :: handle
  indices :: handle

text \<open>
  \<open>initBuffers\<close> reads the script's constants \<open>positions\<close> and \<open>indices\<close>; here they
  are arguments, since the two scripts differ in them.
\<close>

definition initBuffers :: "real list \<Rightarrow> 16 word list \<Rightarrow> world \<Rightarrow> buffers \<times> world" where
  "initBuffers positions indexData w0 =
     (let (positionBuffer, w1) = gl_createBuffer w0;
          w2 = call (BindBuffer ARRAY_BUFFER positionBuffer) w1;
          w3 = call (BufferData ARRAY_BUFFER (Float32Array positions) STATIC_DRAW) w2;
          (indexBuffer, w4) = gl_createBuffer w3;
          w5 = call (BindBuffer ELEMENT_ARRAY_BUFFER indexBuffer) w4;
          w6 = call (BufferData ELEMENT_ARRAY_BUFFER (Uint16Array indexData) STATIC_DRAW) w5
      in (\<lparr>position = positionBuffer, indices = indexBuffer\<rparr>, w6))"

record attribLocations =
  vertexPosition :: int
  vertexColor :: int

record uniformLocations =
  projectionMatrix :: location
  modelViewMatrix :: location

record 'u programInfo =
  attribLocations :: attribLocations
  uniformLocations :: 'u

text \<open>
  The module-level constants \<open>shaderProgram\<close>, \<open>programInfo\<close> and \<open>buffers\<close>, which
  \<open>drawScene\<close> and \<open>render\<close> read on every frame.
\<close>

record 'u globals =
  shaderProgram :: "handle option"
  programInfo :: "'u programInfo"
  buffers :: buffers

subsection \<open>The first script: one face\<close>

definition fragmentShaderSource1 :: string where
  "fragmentShaderSource1 =
     ''\<newline>    varying lowp vec4 vColor;\<newline>\<newline>    void main(void) {\<newline>        gl_FragColor = vColor;\<newline>    }\<newline>''"

definition positions1 :: "real list" where
  "positions1 =
     [-1.0, -1.0,  1.0,  1.0, 0.0, 0.0,
       1.0, -1.0,  1.0,  1.0, 0.0, 0.0,
       1.0,  1.0,  1.0,  1.0, 0.0, 0.0,
      -1.0,  1.0,  1.0,  1.0, 0.0, 0.0]"

definition indices1 :: "16 word list" where
  "indices1 = [0, 1, 2,    0, 2, 3]"

definition drawScene1 :: "host \<Rightarrow> uniformLocations globals \<Rightarrow> world \<Rightarrow> world" where
  "drawScene1 h g w0 =
     (let w1 = call (ClearColor 0.0 0.0 0.0 1.0) w0;
          w2 = call (Clear (COLOR_BUFFER_BIT OR DEPTH_BUFFER_BIT)) w1;
          w3 = call (Enable DEPTH_TEST) w2;
          projection = Mat4_create;
          modelView = Mat4_create;
          projection = Mat4_perspective (pi / 4)
                         (divide_js (canvas_width w3) (canvas_height w3)) 0.1 100.0;
          modelView = Mat4_translate modelView (0.0, 0.0, -6.0);
          (now, w4) = Date_now h w3;
          modelView = Mat4_rotate modelView (now * 0.001) (0, 1, 0);
          w5 = call (UseProgram (shaderProgram g)) w4;
          w6 = call (UniformMatrix4fv (projectionMatrix (uniformLocations (programInfo g)))
                       False projection) w5;
          w7 = call (UniformMatrix4fv (modelViewMatrix (uniformLocations (programInfo g)))
                       False modelView) w6;
          w8 = call (BindBuffer ARRAY_BUFFER (position (buffers g))) w7;
          w9 = call (VertexAttribPointer (vertexPosition (attribLocations (programInfo g)))
                       3 FLOAT False (6 * 4) 0) w8;
          w10 = call (EnableVertexAttribArray
                       (vertexPosition (attribLocations (programInfo g)))) w9;
          w11 = call (VertexAttribPointer (vertexColor (attribLocations (programInfo g)))
                       3 FLOAT False (6 * 4) (3 * 4)) w10;
          w12 = call (EnableVertexAttribArray
                       (vertexColor (attribLocations (programInfo g)))) w11;
          w13 = call (BindBuffer ELEMENT_ARRAY_BUFFER (indices (buffers g))) w12
      in call (DrawElements TRIANGLES (length indices1) UNSIGNED_SHORT 0) w13)"

definition render1 :: "host \<Rightarrow> uniformLocations globals \<Rightarrow> world \<Rightarrow> world" where
  "render1 h g w = requestAnimationFrame (drawScene1 h g w)"

text \<open>
  The statements of the script in order, up to and with the first \<open>render()\<close>. The
  context is taken to exist (the script only alerts when it does not). The script
  catches nothing: an exception of any statement ends it there, before \<open>render()\<close>.
\<close>

definition script1 :: "host \<Rightarrow> world \<Rightarrow> (error + uniformLocations globals) \<times> world" where
  "script1 h w0 =
     andThen (initShaderProgram h vertexShaderSource fragmentShaderSource1 w0) (\<lambda>program w1.
     andThen (gl_getAttribLocation h program ''aPosition'' w1) (\<lambda>aPosition w2.
     andThen (gl_getAttribLocation h program ''aColor'' w2) (\<lambda>aColor w3.
     andThen (gl_getUniformLocation h program ''uProjectionMatrix'' w3) (\<lambda>uProjectionMatrix w4.
     andThen (gl_getUniformLocation h program ''uModelViewMatrix'' w4) (\<lambda>uModelViewMatrix w5.
       (let info = \<lparr>attribLocations = \<lparr>vertexPosition = aPosition, vertexColor = aColor\<rparr>,
                    uniformLocations = \<lparr>projectionMatrix = uProjectionMatrix,
                                         modelViewMatrix = uModelViewMatrix\<rparr>\<rparr>;
            (bufs, w6) = initBuffers positions1 indices1 w5;
            g = \<lparr>shaderProgram = program, programInfo = info, buffers = bufs\<rparr>
        in (Inr g, render1 h g w6)))))))"

text \<open>
  The page runs a waiting callback before each repaint, for as long as it lives:
  one element of the list per repaint, the size of the canvas at that moment. A
  script that ended in an exception has left no callback of its own.
\<close>

fun repaints1 :: "host \<Rightarrow> uniformLocations globals \<Rightarrow> (nat \<times> nat) list \<Rightarrow> world \<Rightarrow> world" where
  "repaints1 h g [] w = w"
| "repaints1 h g ((width, height) # rest) w =
     (if scheduled w = 0 then w
      else repaints1 h g rest
             (render1 h g (w\<lparr>scheduled := scheduled w - 1,
                              canvas_width := width, canvas_height := height\<rparr>)))"

definition page1 :: "host \<Rightarrow> (nat \<times> nat) list \<Rightarrow> world \<Rightarrow> world" where
  "page1 h sizes w0 =
     (case script1 h w0 of (Inl e, w) \<Rightarrow> w | (Inr g, w) \<Rightarrow> repaints1 h g sizes w)"

subsection \<open>The second script: two faces and a tint\<close>

record uniformLocations2 = uniformLocations +
  uColor :: location

definition fragmentShaderSource2 :: string where
  "fragmentShaderSource2 =
     ''\<newline>    precision mediump float;\<newline>    varying lowp vec4 vColor;\<newline>    uniform vec4 uColor;\<newline>\<newline>    void main(void) {\<newline>        gl_FragColor = vColor * uColor; // Multiply base color with dynamic color\<newline>    }\<newline>''"

definition positions2 :: "real list" where
  "positions2 =
     [-1.0, -1.0,  1.0,  0.0, 1.0, 1.0,
       1.0, -1.0,  1.0,  0.0, 1.0, 1.0,
       1.0,  1.0,  1.0,  0.0, 1.0, 1.0,
      -1.0,  1.0,  1.0,  0.0, 1.0, 1.0,
      -1.0, -1.0, -1.0, 1.0, 0.0, 0.0,
       1.0, -1.0, -1.0, 1.0, 0.0, 0.0,
       1.0,  1.0, -1.0, 1.0, 0.0, 0.0,
      -1.0,  1.0, -1.0, 1.0, 0.0, 0.0]"

definition indices2 :: "16 word list" where
  "indices2 = [0, 1, 2,    0, 2, 3,
               4, 5, 6,    4, 6, 7]"

definition getDynamicColor :: "host \<Rightarrow> world \<Rightarrow> real list \<times> world" where
  "getDynamicColor h w0 =
     (let (now, w1) = Date_now h w0;
          time = now * 0.001;
          red = (sin time + 1) / 2;
          green = (cos time + 1) / 2;
          blue = (sin (time * 0.5) + 1) / 2
      in ([red, green, blue, 1.0], w1))"

definition drawScene2 :: "host \<Rightarrow> uniformLocations2 globals \<Rightarrow> world \<Rightarrow> world" where
  "drawScene2 h g w0 =
     (let w1 = call (ClearColor 0.0 0.0 0.0 1.0) w0;
          w2 = call (Clear (COLOR_BUFFER_BIT OR DEPTH_BUFFER_BIT)) w1;
          w3 = call (Enable DEPTH_TEST) w2;
          projection = Mat4_create;
          modelView = Mat4_create;
          projection = Mat4_perspective (pi / 4)
                         (divide_js (canvas_width w3) (canvas_height w3)) 0.1 100.0;
          modelView = Mat4_translate modelView (0.0, 0.0, -6.0);
          (now, w4) = Date_now h w3;
          modelView = Mat4_rotate modelView (now * 0.001) (0, 1, 0);
          w5 = call (UseProgram (shaderProgram g)) w4;
          w6 = call (UniformMatrix4fv (projectionMatrix (uniformLocations (programInfo g)))
                       False projection) w5;
          w7 = call (UniformMatrix4fv (modelViewMatrix (uniformLocations (programInfo g)))
                       False modelView) w6;
          (dynamicColor, w8) = getDynamicColor h w7;
          w9 = call (Uniform4fv (uColor (uniformLocations (programInfo g))) dynamicColor) w8;
          w10 = call (BindBuffer ARRAY_BUFFER (position (buffers g))) w9;
          w11 = call (VertexAttribPointer (vertexPosition (attribLocations (programInfo g)))
                       3 FLOAT False (6 * 4) 0) w10;
          w12 = call (EnableVertexAttribArray
                       (vertexPosition (attribLocations (programInfo g)))) w11;
          w13 = call (VertexAttribPointer (vertexColor (attribLocations (programInfo g)))
                       3 FLOAT False (6 * 4) (3 * 4)) w12;
          w14 = call (EnableVertexAttribArray
                       (vertexColor (attribLocations (programInfo g)))) w13;
          w15 = call (BindBuffer ELEMENT_ARRAY_BUFFER (indices (buffers g))) w14
      in call (DrawElements TRIANGLES (length indices2) UNSIGNED_SHORT 0) w15)"

definition render2 :: "host \<Rightarrow> uniformLocations2 globals \<Rightarrow> world \<Rightarrow> world" where
  "render2 h g w = requestAnimationFrame (drawScene2 h g w)"

definition script2 :: "host \<Rightarrow> world \<Rightarrow> (error + uniformLocations2 globals) \<times> world" where
  "script2 h w0 =
     andThen (initShaderProgram h vertexShaderSource fragmentShaderSource2 w0) (\<lambda>program w1.
     andThen (gl_getAttribLocation h program ''aPosition'' w1) (\<lambda>aPosition w2.
     andThen (gl_getAttribLocation h program ''aColor'' w2) (\<lambda>aColor w3.
     andThen (gl_getUniformLocation h program ''uProjectionMatrix'' w3) (\<lambda>uProjectionMatrix w4.
     andThen (gl_getUniformLocation h program ''uModelViewMatrix'' w4) (\<lambda>uModelViewMatrix w5.
     andThen (gl_getUniformLocation h program ''uColor'' w5) (\<lambda>uColorLocation w6.
       (let info = \<lparr>attribLocations = \<lparr>vertexPosition = aPosition, vertexColor = aColor\<rparr>,
                    uniformLocations = \<lparr>projectionMatrix = uProjectionMatrix,
                                         modelViewMatrix = uModelViewMatrix,
                                         uColor = uColorLocation\<rparr>\<rparr>;
            (bufs, w7) = initBuffers positions2 indices2 w6;
            g = \<lparr>shaderProgram = program, programInfo = info, buffers = bufs\<rparr>
        in (Inr g, render2 h g w7))))))))"

fun repaints2 :: "host \<Rightarrow> uniformLocations2 globals \<Rightarrow> (nat \<times> nat) list \<Rightarrow> world \<Rightarrow> world" where
  "repaints2 h g [] w = w"
| "repaints2 h g ((width, height) # rest) w =
     (if scheduled w = 0 then w
      else repaints2 h g rest
             (render2 h g (w\<lparr>scheduled := scheduled w - 1,
                              canvas_width := width, canvas_height := height\<rparr>)))"

definition page2 :: "host \<Rightarrow> (nat \<times> nat) list \<Rightarrow> world \<Rightarrow> world" where
  "page2 h sizes w0 =
     (case script2 h w0 of (Inl e, w) \<Rightarrow> w | (Inr g, w) \<Rightarrow> repaints2 h g sizes w)"

subsection \<open>Reading a run\<close>

text \<open>
  The calls made between two states, and the selections of them that the
  properties below speak about.
\<close>

definition issued :: "world \<Rightarrow> world \<Rightarrow> gl_call list" where
  "issued w w' = drop (length (calls w)) (calls w')"

fun isDraw :: "gl_call \<Rightarrow> bool" where
  "isDraw (DrawElements m n t off) = True"
| "isDraw _ = False"

fun isUse :: "gl_call \<Rightarrow> bool" where
  "isUse (UseProgram pr) = True"
| "isUse _ = False"

fun isSetup :: "gl_call \<Rightarrow> bool" where
  "isSetup (CompileShader sh) = True"
| "isSetup (LinkProgram pr) = True"
| "isSetup _ = False"


fun isPointer :: "gl_call \<Rightarrow> bool" where
  "isPointer (VertexAttribPointer i n t nm stride off) = True"
| "isPointer _ = False"

fun uniformMatrices :: "gl_call list \<Rightarrow> (location \<times> mat4) list" where
  "uniformMatrices [] = []"
| "uniformMatrices (UniformMatrix4fv l t m # cs) = (l, m) # uniformMatrices cs"
| "uniformMatrices (c # cs) = uniformMatrices cs"

fun tints :: "gl_call list \<Rightarrow> (location \<times> real list) list" where
  "tints [] = []"
| "tints (Uniform4fv l v # cs) = (l, v) # tints cs"
| "tints (c # cs) = tints cs"

fun rotation :: "mat4 \<Rightarrow> real" where
  "rotation (Mat4_rotate m rad axis) = rad"
| "rotation _ = 0"

text \<open>
  The two matrices a frame sends to the shader program, in the order it sends
  them: the projection matrix first, the model-view matrix second.
\<close>

definition projection1 :: "host \<Rightarrow> uniformLocations globals \<Rightarrow> world \<Rightarrow> location \<times> mat4" where
  "projection1 h g w = uniformMatrices (issued w (drawScene1 h g w)) ! 0"

definition modelView1 :: "host \<Rightarrow> uniformLocations globals \<Rightarrow> world \<Rightarrow> location \<times> mat4" where
  "modelView1 h g w = uniformMatrices (issued w (drawScene1 h g w)) ! 1"

definition projection2 :: "host \<Rightarrow> uniformLocations2 globals \<Rightarrow> world \<Rightarrow> location \<times> mat4" where
  "projection2 h g w = uniformMatrices (issued w (drawScene2 h g w)) ! 0"

definition modelView2 :: "host \<Rightarrow> uniformLocations2 globals \<Rightarrow> world \<Rightarrow> location \<times> mat4" where
  "modelView2 h g w = uniformMatrices (issued w (drawScene2 h g w)) ! 1"

text \<open>
  What the context holds of a stage made from a source text: the compiled shader, or
  nothing when the text was rejected (the shader was deleted).
\<close>

definition stage :: "host \<Rightarrow> shader_type \<Rightarrow> string \<Rightarrow> shaderObj option" where
  "stage h ty src =
     (if compiles h ty src then Some \<lparr>shaderType = ty, shaderText = src, compiled = True\<rparr>
      else None)"

text \<open>Shader setup succeeds on a page: both source texts compile and the two stages link.\<close>

definition setupOk :: "host \<Rightarrow> string \<Rightarrow> string \<Rightarrow> bool" where
  "setupOk h vs fs =
     (compiles h VERTEX_SHADER vs \<and> compiles h FRAGMENT_SHADER fs
      \<and> links h [stage h VERTEX_SHADER vs, stage h FRAGMENT_SHADER fs])"

text \<open>
  A fresh page with a 640 by 480 canvas; a page whose compiler rejects every source
  text, a page that compiles every source text and links nothing, and a page that
  accepts everything; the constants of a script whose program is null, and of one
  with a program.
\<close>

definition emptyWorld :: world where
  "emptyWorld =
     \<lparr>calls = [], nextId = 0, shaders = Map.empty, programs = Map.empty, console = [],
      reads = 0, scheduled = 0, canvas_width = 640, canvas_height = 480\<rparr>"

definition rejectingHost :: host where
  "rejectingHost =
     \<lparr>compiles = (\<lambda>ty src. False),
      shaderLog = (\<lambda>ty src. ''ERROR: 0:1: syntax error''),
      links = (\<lambda>ss. False),
      programLog = (\<lambda>ss. ''missing shader''),
      attribLocation = (\<lambda>pr name. - 1),
      uniformLocation = (\<lambda>pr name. None),
      clock = (\<lambda>k. 1000 * real k)\<rparr>"

definition linkFailingHost :: host where
  "linkFailingHost =
     \<lparr>compiles = (\<lambda>ty src. True),
      shaderLog = (\<lambda>ty src. []),
      links = (\<lambda>ss. False),
      programLog = (\<lambda>ss. ''error: varyings do not match''),
      attribLocation = (\<lambda>pr name. - 1),
      uniformLocation = (\<lambda>pr name. None),
      clock = (\<lambda>k. 1000 * real k)\<rparr>"

definition workingHost :: host where
  "workingHost =
     \<lparr>compiles = (\<lambda>ty src. True),
      shaderLog = (\<lambda>ty src. []),
      links = (\<lambda>ss. True),
      programLog = (\<lambda>ss. []),
      attribLocation = (\<lambda>pr name. if name = ''aPosition'' then 0 else 1),
      uniformLocation = (\<lambda>pr name. Some (length name)),
      clock = (\<lambda>k. 1000 * pi)\<rparr>"

definition nullGlobals1 :: "uniformLocations globals" where
  "nullGlobals1 =
     \<lparr>shaderProgram = None,
      programInfo =
        \<lparr>attribLocations = \<lparr>vertexPosition = - 1, vertexColor = - 1\<rparr>,
         uniformLocations = \<lparr>projectionMatrix = None, modelViewMatrix = None\<rparr>\<rparr>,
      buffers = \<lparr>position = 3, indices = 4\<rparr>\<rparr>"

definition linkedGlobals1 :: "uniformLocations globals" where
  "linkedGlobals1 =
     \<lparr>shaderProgram = Some 2,
      programInfo =
        \<lparr>attribLocations = \<lparr>vertexPosition = 0, vertexColor = 1\<rparr>,
         uniformLocations = \<lparr>projectionMatrix = Some 17, modelViewMatrix = Some 16\<rparr>\<rparr>,
      buffers = \<lparr>position = 3, indices = 4\<rparr>\<rparr>"

definition nullGlobals2 :: "uniformLocations2 globals" where
  "nullGlobals2 =
     \<lparr>shaderProgram = None,
      programInfo =
        \<lparr>attribLocations = \<lparr>vertexPosition = - 1, vertexColor = - 1\<rparr>,
         uniformLocations =
           \<lparr>projectionMatrix = None, modelViewMatrix = None, uColor = None\<rparr>\<rparr>,
      buffers = \<lparr>position = 3, indices = 4\<rparr>\<rparr>"

definition linkedGlobals2 :: "uniformLocations2 globals" where
  "linkedGlobals2 =
     \<lparr>shaderProgram = Some 2,
      programInfo =
        \<lparr>attribLocations = \<lparr>vertexPosition = 0, vertexColor = 1\<rparr>,
         uniformLocations =
           \<lparr>projectionMatrix = Some 17, modelViewMatrix = Some 16, uColor = Some 6\<rparr>\<rparr>,
      buffers = \<lparr>position = 3, indices = 4\<rparr>\<rparr>"

section \<open>What the functions do, call by call\<close>

lemma issued_append: "calls w' = calls w @ xs \<Longrightarrow> issued w w' = xs"
  by (simp add: issued_def)

lemma issued_filter:
  assumes "\<exists>xs. calls w' = calls w @ xs"
    and "filter P (calls w') = filter P (calls w) @ R"
  shows "filter P (issued w w') = R"
  using assms by (auto simp: issued_def)

lemma concat_replicate_single: "concat (replicate n [x]) = replicate n x"
  by (induction n) simp_all

lemma half_unit: "- 1 \<le> (x::real) \<Longrightarrow> x \<le> 1 \<Longrightarrow> 0 \<le> (x + 1) / 2 \<and> (x + 1) / 2 \<le> 1"
  by simp

subsection \<open>Shader setup\<close>

lemma createShader_fail:
  assumes "\<not> compiles h ty src"
  shows "createShader h ty src w =
    (None,
     w\<lparr>calls := calls w @
          [CreateShader ty, ShaderSource (nextId w) src, CompileShader (nextId w),
           GetShaderParameter (nextId w) COMPILE_STATUS,
           GetShaderInfoLog (nextId w), DeleteShader (nextId w)],
        nextId := Suc (nextId w),
        shaders := (shaders w)(nextId w := None),
        console := console w @ [(''Shader compilation failed:'', shaderLog h ty src)]\<rparr>)"
  using assms
  by (simp add: createShader_def gl_createShader_def gl_shaderSource_def gl_compileShader_def
      gl_getShaderParameter_def gl_getShaderInfoLog_def gl_deleteShader_def console_error_def
      call_def)

lemma createShader_ok:
  assumes "compiles h ty src"
  shows "createShader h ty src w =
    (Some (nextId w),
     w\<lparr>calls := calls w @
          [CreateShader ty, ShaderSource (nextId w) src, CompileShader (nextId w),
           GetShaderParameter (nextId w) COMPILE_STATUS],
        nextId := Suc (nextId w),
        shaders := (shaders w)(nextId w \<mapsto>
          \<lparr>shaderType = ty, shaderText = src, compiled = True\<rparr>)\<rparr>)"
  using assms
  by (simp add: createShader_def gl_createShader_def gl_shaderSource_def gl_compileShader_def
      gl_getShaderParameter_def call_def)

lemma createShader_result:
  "fst (createShader h ty src w) = (if compiles h ty src then Some (nextId w) else None)"
  by (simp add: createShader_ok createShader_fail)

lemma createShader_nextId:
  "nextId (snd (createShader h ty src w)) = Suc (nextId w)"
  by (cases "compiles h ty src") (simp_all add: createShader_ok createShader_fail)

lemma createShader_stage:
  "shaders (snd (createShader h ty src w)) (nextId w) = stage h ty src"
  by (cases "compiles h ty src") (simp_all add: createShader_ok createShader_fail stage_def)

lemma createShader_other:
  "k \<noteq> nextId w \<Longrightarrow> shaders (snd (createShader h ty src w)) k = shaders w k"
  by (cases "compiles h ty src") (simp_all add: createShader_ok createShader_fail)

lemma createShader_calls:
  "calls (snd (createShader h ty src w)) = calls w @
     [CreateShader ty, ShaderSource (nextId w) src, CompileShader (nextId w),
      GetShaderParameter (nextId w) COMPILE_STATUS] @
     (if compiles h ty src then [] else [GetShaderInfoLog (nextId w), DeleteShader (nextId w)])"
  by (simp add: createShader_ok createShader_fail)

lemma createShader_console:
  "console (snd (createShader h ty src w)) = console w @
     (if compiles h ty src then [] else [(''Shader compilation failed:'', shaderLog h ty src)])"
  by (simp add: createShader_ok createShader_fail)

lemma createShader_frame:
  "reads (snd (createShader h ty src w)) = reads w"
  "scheduled (snd (createShader h ty src w)) = scheduled w"
  "canvas_width (snd (createShader h ty src w)) = canvas_width w"
  "canvas_height (snd (createShader h ty src w)) = canvas_height w"
  by (cases "compiles h ty src"; simp add: createShader_ok createShader_fail)+

lemma initShaderProgram_result:
  "fst (initShaderProgram h vs fs w) =
     (if compiles h VERTEX_SHADER vs \<and> compiles h FRAGMENT_SHADER fs
      then (if links h [stage h VERTEX_SHADER vs, stage h FRAGMENT_SHADER fs]
            then Inr (Some (Suc (Suc (nextId w)))) else Inr None)
      else Inl (TypeError (AttachShader (Suc (Suc (nextId w))) None)))"
  by (cases "compiles h VERTEX_SHADER vs"; cases "compiles h FRAGMENT_SHADER fs")
    (simp_all add: initShaderProgram_def createShader_ok createShader_fail gl_createProgram_def
      gl_attachShader_def gl_linkProgram_def gl_getProgramParameter_def gl_getProgramInfoLog_def
      console_error_def call_def stages_def stage_def andThen_def Let_def)

lemma initShaderProgram_calls:
  "calls (snd (initShaderProgram h vs fs w)) = calls w @
     [CreateShader VERTEX_SHADER, ShaderSource (nextId w) vs, CompileShader (nextId w),
      GetShaderParameter (nextId w) COMPILE_STATUS] @
     (if compiles h VERTEX_SHADER vs then []
      else [GetShaderInfoLog (nextId w), DeleteShader (nextId w)]) @
     [CreateShader FRAGMENT_SHADER, ShaderSource (Suc (nextId w)) fs,
      CompileShader (Suc (nextId w)), GetShaderParameter (Suc (nextId w)) COMPILE_STATUS] @
     (if compiles h FRAGMENT_SHADER fs then []
      else [GetShaderInfoLog (Suc (nextId w)), DeleteShader (Suc (nextId w))]) @
     [CreateProgram] @
     (if compiles h VERTEX_SHADER vs
      then [AttachShader (Suc (Suc (nextId w))) (Some (nextId w))] @
        (if compiles h FRAGMENT_SHADER fs
         then [AttachShader (Suc (Suc (nextId w))) (Some (Suc (nextId w))),
               LinkProgram (Suc (Suc (nextId w))),
               GetProgramParameter (Suc (Suc (nextId w))) LINK_STATUS] @
           (if links h [stage h VERTEX_SHADER vs, stage h FRAGMENT_SHADER fs] then []
            else [GetProgramInfoLog (Suc (Suc (nextId w)))])
         else [])
      else [])"
  by (cases "compiles h VERTEX_SHADER vs"; cases "compiles h FRAGMENT_SHADER fs")
    (simp_all add: initShaderProgram_def createShader_ok createShader_fail gl_createProgram_def
      gl_attachShader_def gl_linkProgram_def gl_getProgramParameter_def gl_getProgramInfoLog_def
      console_error_def call_def stages_def stage_def andThen_def Let_def)

lemma initShaderProgram_console:
  "console (snd (initShaderProgram h vs fs w)) = console w @
     (if compiles h VERTEX_SHADER vs then []
      else [(''Shader compilation failed:'', shaderLog h VERTEX_SHADER vs)]) @
     (if compiles h FRAGMENT_SHADER fs then []
      else [(''Shader compilation failed:'', shaderLog h FRAGMENT_SHADER fs)]) @
     (if compiles h VERTEX_SHADER vs \<and> compiles h FRAGMENT_SHADER fs
         \<and> \<not> links h [stage h VERTEX_SHADER vs, stage h FRAGMENT_SHADER fs]
      then [(''Shader program linking failed:'',
             programLog h [stage h VERTEX_SHADER vs, stage h FRAGMENT_SHADER fs])]
      else [])"
  by (cases "compiles h VERTEX_SHADER vs"; cases "compiles h FRAGMENT_SHADER fs")
    (simp_all add: initShaderProgram_def createShader_ok createShader_fail gl_createProgram_def
      gl_attachShader_def gl_linkProgram_def gl_getProgramParameter_def gl_getProgramInfoLog_def
      console_error_def call_def stages_def stage_def andThen_def Let_def)

lemma initShaderProgram_program:
  "compiles h VERTEX_SHADER vs \<Longrightarrow> compiles h FRAGMENT_SHADER fs \<Longrightarrow>
   programs (snd (initShaderProgram h vs fs w)) (Suc (Suc (nextId w))) =
     Some \<lparr>attached = [nextId w, Suc (nextId w)],
           linked = links h [stage h VERTEX_SHADER vs, stage h FRAGMENT_SHADER fs]\<rparr>"
  by (simp add: initShaderProgram_def createShader_ok gl_createProgram_def
      gl_attachShader_def gl_linkProgram_def gl_getProgramParameter_def gl_getProgramInfoLog_def
      console_error_def call_def stages_def stage_def andThen_def Let_def)

lemma initShaderProgram_frame:
  "reads (snd (initShaderProgram h vs fs w)) = reads w"
  "scheduled (snd (initShaderProgram h vs fs w)) = scheduled w"
  "canvas_width (snd (initShaderProgram h vs fs w)) = canvas_width w"
  "canvas_height (snd (initShaderProgram h vs fs w)) = canvas_height w"
  "nextId (snd (initShaderProgram h vs fs w)) = Suc (Suc (Suc (nextId w)))"
  by (cases "compiles h VERTEX_SHADER vs"; cases "compiles h FRAGMENT_SHADER fs";
      simp add: initShaderProgram_def createShader_ok createShader_fail gl_createProgram_def
        gl_attachShader_def gl_linkProgram_def gl_getProgramParameter_def
        gl_getProgramInfoLog_def console_error_def call_def stages_def stage_def andThen_def
        Let_def)+

subsection \<open>One frame\<close>

lemma drawScene1_calls:
  "calls (drawScene1 h g w) = calls w @
     [ClearColor 0 0 0 1, Clear (COLOR_BUFFER_BIT OR DEPTH_BUFFER_BIT), Enable DEPTH_TEST,
      UseProgram (shaderProgram g),
      UniformMatrix4fv (projectionMatrix (uniformLocations (programInfo g))) False
        (Mat4_perspective (pi / 4) (divide_js (canvas_width w) (canvas_height w)) (1 / 10) 100),
      UniformMatrix4fv (modelViewMatrix (uniformLocations (programInfo g))) False
        (Mat4_rotate (Mat4_translate Mat4_create (0, 0, - 6))
           (clock h (reads w) * (1 / 1000)) (0, 1, 0)),
      BindBuffer ARRAY_BUFFER (position (buffers g)),
      VertexAttribPointer (vertexPosition (attribLocations (programInfo g))) 3 FLOAT False 24 0,
      EnableVertexAttribArray (vertexPosition (attribLocations (programInfo g))),
      VertexAttribPointer (vertexColor (attribLocations (programInfo g))) 3 FLOAT False 24 12,
      EnableVertexAttribArray (vertexColor (attribLocations (programInfo g))),
      BindBuffer ELEMENT_ARRAY_BUFFER (indices (buffers g)),
      DrawElements TRIANGLES 6 UNSIGNED_SHORT 0]"
  by (simp add: drawScene1_def call_def Date_now_def indices1_def)

lemma drawScene1_scheduled: "scheduled (drawScene1 h g w) = scheduled w"
  by (simp add: drawScene1_def call_def Date_now_def)

lemma getDynamicColor_value:
  "fst (getDynamicColor h w) =
     [(sin (clock h (reads w) * (1 / 1000)) + 1) / 2,
      (cos (clock h (reads w) * (1 / 1000)) + 1) / 2,
      (sin (clock h (reads w) * (1 / 1000) * (1 / 2)) + 1) / 2,
      1]"
  by (simp add: getDynamicColor_def Date_now_def Let_def)

lemma drawScene2_calls:
  "calls (drawScene2 h g w) = calls w @
     [ClearColor 0 0 0 1, Clear (COLOR_BUFFER_BIT OR DEPTH_BUFFER_BIT), Enable DEPTH_TEST,
      UseProgram (shaderProgram g),
      UniformMatrix4fv (projectionMatrix (uniformLocations (programInfo g))) False
        (Mat4_perspective (pi / 4) (divide_js (canvas_width w) (canvas_height w)) (1 / 10) 100),
      UniformMatrix4fv (modelViewMatrix (uniformLocations (programInfo g))) False
        (Mat4_rotate (Mat4_translate Mat4_create (0, 0, - 6))
           (clock h (reads w) * (1 / 1000)) (0, 1, 0)),
      Uniform4fv (uColor (uniformLocations (programInfo g)))
        (fst (getDynamicColor h (w\<lparr>reads := Suc (reads w)\<rparr>))),
      BindBuffer ARRAY_BUFFER (position (buffers g)),
      VertexAttribPointer (vertexPosition (attribLocations (programInfo g))) 3 FLOAT False 24 0,
      EnableVertexAttribArray (vertexPosition (attribLocations (programInfo g))),
      VertexAttribPointer (vertexColor (attribLocations (programInfo g))) 3 FLOAT False 24 12,
      EnableVertexAttribArray (vertexColor (attribLocations (programInfo g))),
      BindBuffer ELEMENT_ARRAY_BUFFER (indices (buffers g)),
      DrawElements TRIANGLES 12 UNSIGNED_SHORT 0]"
  by (simp add: drawScene2_def call_def Date_now_def indices2_def getDynamicColor_def Let_def)

lemma drawScene2_scheduled: "scheduled (drawScene2 h g w) = scheduled w"
  by (simp add: drawScene2_def call_def Date_now_def getDynamicColor_def Let_def)

lemma frame1_issued:
  "issued w (drawScene1 h g w) =
     [ClearColor 0 0 0 1, Clear (COLOR_BUFFER_BIT OR DEPTH_BUFFER_BIT), Enable DEPTH_TEST,
      UseProgram (shaderProgram g),
      UniformMatrix4fv (projectionMatrix (uniformLocations (programInfo g))) False
        (Mat4_perspective (pi / 4) (divide_js (canvas_width w) (canvas_height w)) (1 / 10) 100),
      UniformMatrix4fv (modelViewMatrix (uniformLocations (programInfo g))) False
        (Mat4_rotate (Mat4_translate Mat4_create (0, 0, - 6))
           (clock h (reads w) * (1 / 1000)) (0, 1, 0)),
      BindBuffer ARRAY_BUFFER (position (buffers g)),
      VertexAttribPointer (vertexPosition (attribLocations (programInfo g))) 3 FLOAT False 24 0,
      EnableVertexAttribArray (vertexPosition (attribLocations (programInfo g))),
      VertexAttribPointer (vertexColor (attribLocations (programInfo g))) 3 FLOAT False 24 12,
      EnableVertexAttribArray (vertexColor (attribLocations (programInfo g))),
      BindBuffer ELEMENT_ARRAY_BUFFER (indices (buffers g)),
      DrawElements TRIANGLES 6 UNSIGNED_SHORT 0]"
  by (rule issued_append) (rule drawScene1_calls)

lemma frame2_issued:
  "issued w (drawScene2 h g w) =
     [ClearColor 0 0 0 1, Clear (COLOR_BUFFER_BIT OR DEPTH_BUFFER_BIT), Enable DEPTH_TEST,
      UseProgram (shaderProgram g),
      UniformMatrix4fv (projectionMatrix (uniformLocations (programInfo g))) False
        (Mat4_perspective (pi / 4) (divide_js (canvas_width w) (canvas_height w)) (1 / 10) 100),
      UniformMatrix4fv (modelViewMatrix (uniformLocations (programInfo g))) False
        (Mat4_rotate (Mat4_translate Mat4_create (0, 0, - 6))
           (clock h (reads w) * (1 / 1000)) (0, 1, 0)),
      Uniform4fv (uColor (uniformLocations (programInfo g)))
        (fst (getDynamicColor h (w\<lparr>reads := Suc (reads w)\<rparr>))),
      BindBuffer ARRAY_BUFFER (position (buffers g)),
      VertexAttribPointer (vertexPosition (attribLocations (programInfo g))) 3 FLOAT False 24 0,
      EnableVertexAttribArray (vertexPosition (attribLocations (programInfo g))),
      VertexAttribPointer (vertexColor (attribLocations (programInfo g))) 3 FLOAT False 24 12,
      EnableVertexAttribArray (vertexColor (attribLocations (programInfo g))),
      BindBuffer ELEMENT_ARRAY_BUFFER (indices (buffers g)),
      DrawElements TRIANGLES 12 UNSIGNED_SHORT 0]"
  by (rule issued_append) (rule drawScene2_calls)

lemma render1_calls: "calls (render1 h g w) = calls (drawScene1 h g w)"
  by (simp add: render1_def requestAnimationFrame_def)

lemma render1_scheduled: "scheduled (render1 h g w) = Suc (scheduled w)"
  by (simp add: render1_def requestAnimationFrame_def drawScene1_scheduled)

lemma render1_issued: "issued w (render1 h g w) = issued w (drawScene1 h g w)"
  by (simp add: issued_def render1_calls)

lemma repaints1_filter:
  assumes frame: "\<And>w. filter P (calls (render1 h g w)) = filter P (calls w) @ F"
  shows "0 < scheduled w \<Longrightarrow>
    filter P (calls (repaints1 h g sizes w)) =
      filter P (calls w) @ concat (replicate (length sizes) F)"
proof (induction sizes arbitrary: w)
  case Nil
  then show ?case by simp
next
  case (Cons s sizes)
  obtain width height where s: "s = (width, height)" by (cases s)
  let ?w = "render1 h g
    (w\<lparr>scheduled := scheduled w - 1, canvas_width := width, canvas_height := height\<rparr>)"
  have "0 < scheduled ?w" by (simp add: render1_scheduled)
  then have "filter P (calls (repaints1 h g sizes ?w)) =
      filter P (calls ?w) @ concat (replicate (length sizes) F)"
    by (rule Cons.IH)
  with Cons.prems show ?case
    by (simp add: s frame)
qed

lemma repaints1_prefix: "\<exists>xs. calls (repaints1 h g sizes w) = calls w @ xs"
proof (induction sizes arbitrary: w)
  case Nil
  show ?case by simp
next
  case (Cons s sizes)
  obtain width height where s: "s = (width, height)" by (cases s)
  let ?w = "render1 h g
    (w\<lparr>scheduled := scheduled w - 1, canvas_width := width, canvas_height := height\<rparr>)"
  obtain xs where "calls (repaints1 h g sizes ?w) = calls ?w @ xs"
    using Cons.IH by blast
  then show ?case
    by (simp add: s render1_calls drawScene1_calls)
qed

lemma render2_calls: "calls (render2 h g w) = calls (drawScene2 h g w)"
  by (simp add: render2_def requestAnimationFrame_def)

lemma render2_scheduled: "scheduled (render2 h g w) = Suc (scheduled w)"
  by (simp add: render2_def requestAnimationFrame_def drawScene2_scheduled)

lemma render2_issued: "issued w (render2 h g w) = issued w (drawScene2 h g w)"
  by (simp add: issued_def render2_calls)

lemma repaints2_filter:
  assumes frame: "\<And>w. filter P (calls (render2 h g w)) = filter P (calls w) @ F"
  shows "0 < scheduled w \<Longrightarrow>
    filter P (calls (repaints2 h g sizes w)) =
      filter P (calls w) @ concat (replicate (length sizes) F)"
proof (induction sizes arbitrary: w)
  case Nil
  then show ?case by simp
next
  case (Cons s sizes)
  obtain width height where s: "s = (width, height)" by (cases s)
  let ?w = "render2 h g
    (w\<lparr>scheduled := scheduled w - 1, canvas_width := width, canvas_height := height\<rparr>)"
  have "0 < scheduled ?w" by (simp add: render2_scheduled)
  then have "filter P (calls (repaints2 h g sizes ?w)) =
      filter P (calls ?w) @ concat (replicate (length sizes) F)"
    by (rule Cons.IH)
  with Cons.prems show ?case
    by (simp add: s frame)
qed

lemma repaints2_prefix: "\<exists>xs. calls (repaints2 h g sizes w) = calls w @ xs"
proof (induction sizes arbitrary: w)
  case Nil
  show ?case by simp
next
  case (Cons s sizes)
  obtain width height where s: "s = (width, height)" by (cases s)
  let ?w = "render2 h g
    (w\<lparr>scheduled := scheduled w - 1, canvas_width := width, canvas_height := height\<rparr>)"
  obtain xs where "calls (repaints2 h g sizes ?w) = calls ?w @ xs"
    using Cons.IH by blast
  then show ?case
    by (simp add: s render2_calls drawScene2_calls)
qed

subsection \<open>The script from its first statement\<close>

lemma script1_result:
  "fst (script1 h w0) =
     (if setupOk h vertexShaderSource fragmentShaderSource1
      then Inr
        \<lparr>shaderProgram = Some (Suc (Suc (nextId w0))),
         programInfo =
           \<lparr>attribLocations =
              \<lparr>vertexPosition = attribLocation h (Suc (Suc (nextId w0))) ''aPosition'',
               vertexColor = attribLocation h (Suc (Suc (nextId w0))) ''aColor''\<rparr>,
            uniformLocations =
              \<lparr>projectionMatrix = uniformLocation h (Suc (Suc (nextId w0))) ''uProjectionMatrix'',
               modelViewMatrix = uniformLocation h (Suc (Suc (nextId w0))) ''uModelViewMatrix''\<rparr>\<rparr>,
         buffers = \<lparr>position = Suc (Suc (Suc (nextId w0))),
                    indices = Suc (Suc (Suc (Suc (nextId w0))))\<rparr>\<rparr>
      else if compiles h VERTEX_SHADER vertexShaderSource
              \<and> compiles h FRAGMENT_SHADER fragmentShaderSource1
      then Inl (TypeError (GetAttribLocation None ''aPosition''))
      else Inl (TypeError (AttachShader (Suc (Suc (nextId w0))) None)))"
proof -
  define w1 where "w1 = snd (initShaderProgram h vertexShaderSource fragmentShaderSource1 w0)"
  have i: "initShaderProgram h vertexShaderSource fragmentShaderSource1 w0 =
      (fst (initShaderProgram h vertexShaderSource fragmentShaderSource1 w0), w1)"
    by (simp add: w1_def)
  have n: "nextId w1 = Suc (Suc (Suc (nextId w0)))"
    by (simp add: w1_def initShaderProgram_frame)
  show ?thesis
    by (subst script1_def, subst i)
      (simp add: initShaderProgram_result andThen_def setupOk_def gl_getAttribLocation_def
        gl_getUniformLocation_def initBuffers_def gl_createBuffer_def call_def n Let_def)
qed

lemma script1_calls:
  "calls (snd (script1 h w0)) =
     calls (snd (initShaderProgram h vertexShaderSource fragmentShaderSource1 w0)) @
     (if setupOk h vertexShaderSource fragmentShaderSource1
      then
        [GetAttribLocation (Some (Suc (Suc (nextId w0)))) ''aPosition'',
         GetAttribLocation (Some (Suc (Suc (nextId w0)))) ''aColor'',
         GetUniformLocation (Some (Suc (Suc (nextId w0)))) ''uProjectionMatrix'',
         GetUniformLocation (Some (Suc (Suc (nextId w0)))) ''uModelViewMatrix'',
         CreateBuffer, BindBuffer ARRAY_BUFFER (Suc (Suc (Suc (nextId w0)))),
         BufferData ARRAY_BUFFER (Float32Array positions1) STATIC_DRAW,
         CreateBuffer, BindBuffer ELEMENT_ARRAY_BUFFER (Suc (Suc (Suc (Suc (nextId w0))))),
         BufferData ELEMENT_ARRAY_BUFFER (Uint16Array indices1) STATIC_DRAW,
         ClearColor 0 0 0 1, Clear (COLOR_BUFFER_BIT OR DEPTH_BUFFER_BIT), Enable DEPTH_TEST,
         UseProgram (Some (Suc (Suc (nextId w0)))),
         UniformMatrix4fv (uniformLocation h (Suc (Suc (nextId w0))) ''uProjectionMatrix'') False
           (Mat4_perspective (pi / 4) (divide_js (canvas_width w0) (canvas_height w0))
              (1 / 10) 100),
         UniformMatrix4fv (uniformLocation h (Suc (Suc (nextId w0))) ''uModelViewMatrix'') False
           (Mat4_rotate (Mat4_translate Mat4_create (0, 0, - 6))
              (clock h (reads w0) * (1 / 1000)) (0, 1, 0)),
         BindBuffer ARRAY_BUFFER (Suc (Suc (Suc (nextId w0)))),
         VertexAttribPointer (attribLocation h (Suc (Suc (nextId w0))) ''aPosition'')
           3 FLOAT False 24 0,
         EnableVertexAttribArray (attribLocation h (Suc (Suc (nextId w0))) ''aPosition''),
         VertexAttribPointer (attribLocation h (Suc (Suc (nextId w0))) ''aColor'')
           3 FLOAT False 24 12,
         EnableVertexAttribArray (attribLocation h (Suc (Suc (nextId w0))) ''aColor''),
         BindBuffer ELEMENT_ARRAY_BUFFER (Suc (Suc (Suc (Suc (nextId w0))))),
         DrawElements TRIANGLES 6 UNSIGNED_SHORT 0]
      else [])"
proof -
  define w1 where "w1 = snd (initShaderProgram h vertexShaderSource fragmentShaderSource1 w0)"
  have i: "initShaderProgram h vertexShaderSource fragmentShaderSource1 w0 =
      (fst (initShaderProgram h vertexShaderSource fragmentShaderSource1 w0), w1)"
    by (simp add: w1_def)
  have f: "nextId w1 = Suc (Suc (Suc (nextId w0)))" "reads w1 = reads w0"
    "canvas_width w1 = canvas_width w0" "canvas_height w1 = canvas_height w0"
    by (simp_all add: w1_def initShaderProgram_frame)
  show ?thesis
    unfolding w1_def [symmetric]
    by (subst script1_def, subst i)
      (simp add: initShaderProgram_result andThen_def setupOk_def gl_getAttribLocation_def
        gl_getUniformLocation_def initBuffers_def gl_createBuffer_def call_def f Let_def
        render1_calls drawScene1_calls)
qed

lemma script1_scheduled:
  "setupOk h vertexShaderSource fragmentShaderSource1 \<Longrightarrow> 0 < scheduled (snd (script1 h w0))"
proof -
  define w1 where "w1 = snd (initShaderProgram h vertexShaderSource fragmentShaderSource1 w0)"
  assume ok: "setupOk h vertexShaderSource fragmentShaderSource1"
  have i: "initShaderProgram h vertexShaderSource fragmentShaderSource1 w0 =
      (fst (initShaderProgram h vertexShaderSource fragmentShaderSource1 w0), w1)"
    by (simp add: w1_def)
  show ?thesis
    using ok
    by (subst script1_def, subst i)
      (simp add: initShaderProgram_result andThen_def setupOk_def gl_getAttribLocation_def
        gl_getUniformLocation_def Let_def render1_scheduled split: prod.splits)
qed

lemma page1_unfold:
  "page1 h sizes w0 =
     (if setupOk h vertexShaderSource fragmentShaderSource1
      then repaints1 h (projr (fst (script1 h w0))) sizes (snd (script1 h w0))
      else snd (script1 h w0))"
proof -
  have s: "script1 h w0 = (fst (script1 h w0), snd (script1 h w0))"
    by simp
  show ?thesis
    by (subst page1_def, subst s) (simp add: script1_result)
qed

lemma script1_prefix: "\<exists>xs. calls (snd (script1 h w0)) = calls w0 @ xs"
  by (simp add: script1_calls initShaderProgram_calls)

lemma page1_prefix: "\<exists>xs. calls (page1 h sizes w0) = calls w0 @ xs"
proof (cases "setupOk h vertexShaderSource fragmentShaderSource1")
  case True
  obtain xs where "calls (page1 h sizes w0) = calls (snd (script1 h w0)) @ xs"
    using repaints1_prefix [of h "projr (fst (script1 h w0))" sizes "snd (script1 h w0)"] True
    by (auto simp: page1_unfold)
  moreover obtain ys where "calls (snd (script1 h w0)) = calls w0 @ ys"
    using script1_prefix by blast
  ultimately show ?thesis by simp
next
  case False
  then show ?thesis by (simp add: page1_unfold script1_prefix)
qed

lemma page1_filter:
  assumes "\<And>w. filter P (calls (render1 h (projr (fst (script1 h w0))) w)) =
      filter P (calls w) @ F"
  shows "filter P (issued w0 (page1 h sizes w0)) =
    filter P (issued w0 (snd (script1 h w0))) @
    (if setupOk h vertexShaderSource fragmentShaderSource1
     then concat (replicate (length sizes) F) else [])"
proof (cases "setupOk h vertexShaderSource fragmentShaderSource1")
  case True
  have "filter P (calls (page1 h sizes w0)) =
      filter P (calls (snd (script1 h w0))) @ concat (replicate (length sizes) F)"
    using repaints1_filter [of P h "projr (fst (script1 h w0))" F "snd (script1 h w0)" sizes]
      assms script1_scheduled [OF True, of w0] True
    by (simp add: page1_unfold)
  then show ?thesis
    using page1_prefix [of h sizes w0] script1_prefix [of h w0] True
    by (auto simp: issued_def)
next
  case False
  then show ?thesis by (simp add: page1_unfold)
qed

lemma script2_result:
  "fst (script2 h w0) =
     (if setupOk h vertexShaderSource fragmentShaderSource2
      then Inr
        \<lparr>shaderProgram = Some (Suc (Suc (nextId w0))),
         programInfo =
           \<lparr>attribLocations =
              \<lparr>vertexPosition = attribLocation h (Suc (Suc (nextId w0))) ''aPosition'',
               vertexColor = attribLocation h (Suc (Suc (nextId w0))) ''aColor''\<rparr>,
            uniformLocations =
              \<lparr>projectionMatrix = uniformLocation h (Suc (Suc (nextId w0))) ''uProjectionMatrix'',
               modelViewMatrix = uniformLocation h (Suc (Suc (nextId w0))) ''uModelViewMatrix'',
               uColor = uniformLocation h (Suc (Suc (nextId w0))) ''uColor''\<rparr>\<rparr>,
         buffers = \<lparr>position = Suc (Suc (Suc (nextId w0))),
                    indices = Suc (Suc (Suc (Suc (nextId w0))))\<rparr>\<rparr>
      else if compiles h VERTEX_SHADER vertexShaderSource
              \<and> compiles h FRAGMENT_SHADER fragmentShaderSource2
      then Inl (TypeError (GetAttribLocation None ''aPosition''))
      else Inl (TypeError (AttachShader (Suc (Suc (nextId w0))) None)))"
proof -
  define w1 where "w1 = snd (initShaderProgram h vertexShaderSource fragmentShaderSource2 w0)"
  have i: "initShaderProgram h vertexShaderSource fragmentShaderSource2 w0 =
      (fst (initShaderProgram h vertexShaderSource fragmentShaderSource2 w0), w1)"
    by (simp add: w1_def)
  have n: "nextId w1 = Suc (Suc (Suc (nextId w0)))"
    by (simp add: w1_def initShaderProgram_frame)
  show ?thesis
    by (subst script2_def, subst i)
      (simp add: initShaderProgram_result andThen_def setupOk_def gl_getAttribLocation_def
        gl_getUniformLocation_def initBuffers_def gl_createBuffer_def call_def n Let_def)
qed

lemma script2_calls:
  "calls (snd (script2 h w0)) =
     calls (snd (initShaderProgram h vertexShaderSource fragmentShaderSource2 w0)) @
     (if setupOk h vertexShaderSource fragmentShaderSource2
      then
        [GetAttribLocation (Some (Suc (Suc (nextId w0)))) ''aPosition'',
         GetAttribLocation (Some (Suc (Suc (nextId w0)))) ''aColor'',
         GetUniformLocation (Some (Suc (Suc (nextId w0)))) ''uProjectionMatrix'',
         GetUniformLocation (Some (Suc (Suc (nextId w0)))) ''uModelViewMatrix'',
         GetUniformLocation (Some (Suc (Suc (nextId w0)))) ''uColor'',
         CreateBuffer, BindBuffer ARRAY_BUFFER (Suc (Suc (Suc (nextId w0)))),
         BufferData ARRAY_BUFFER (Float32Array positions2) STATIC_DRAW,
         CreateBuffer, BindBuffer ELEMENT_ARRAY_BUFFER (Suc (Suc (Suc (Suc (nextId w0))))),
         BufferData ELEMENT_ARRAY_BUFFER (Uint16Array indices2) STATIC_DRAW,
         ClearColor 0 0 0 1, Clear (COLOR_BUFFER_BIT OR DEPTH_BUFFER_BIT), Enable DEPTH_TEST,
         UseProgram (Some (Suc (Suc (nextId w0)))),
         UniformMatrix4fv (uniformLocation h (Suc (Suc (nextId w0))) ''uProjectionMatrix'') False
           (Mat4_perspective (pi / 4) (divide_js (canvas_width w0) (canvas_height w0))
              (1 / 10) 100),
         UniformMatrix4fv (uniformLocation h (Suc (Suc (nextId w0))) ''uModelViewMatrix'') False
           (Mat4_rotate (Mat4_translate Mat4_create (0, 0, - 6))
              (clock h (reads w0) * (1 / 1000)) (0, 1, 0)),
         Uniform4fv (uniformLocation h (Suc (Suc (nextId w0))) ''uColor'')
           (fst (getDynamicColor h (w0\<lparr>reads := Suc (reads w0)\<rparr>))),
         BindBuffer ARRAY_BUFFER (Suc (Suc (Suc (nextId w0)))),
         VertexAttribPointer (attribLocation h (Suc (Suc (nextId w0))) ''aPosition'')
           3 FLOAT False 24 0,
         EnableVertexAttribArray (attribLocation h (Suc (Suc (nextId w0))) ''aPosition''),
         VertexAttribPointer (attribLocation h (Suc (Suc (nextId w0))) ''aColor'')
           3 FLOAT False 24 12,
         EnableVertexAttribArray (attribLocation h (Suc (Suc (nextId w0))) ''aColor''),
         BindBuffer ELEMENT_ARRAY_BUFFER (Suc (Suc (Suc (Suc (nextId w0))))),
         DrawElements TRIANGLES 12 UNSIGNED_SHORT 0]
      else [])"
proof -
  define w1 where "w1 = snd (initShaderProgram h vertexShaderSource fragmentShaderSource2 w0)"
  have i: "initShaderProgram h vertexShaderSource fragmentShaderSource2 w0 =
      (fst (initShaderProgram h vertexShaderSource fragmentShaderSource2 w0), w1)"
    by (simp add: w1_def)
  have f: "nextId w1 = Suc (Suc (Suc (nextId w0)))" "reads w1 = reads w0"
    "canvas_width w1 = canvas_width w0" "canvas_height w1 = canvas_height w0"
    by (simp_all add: w1_def initShaderProgram_frame)
  show ?thesis
    unfolding w1_def [symmetric]
    by (subst script2_def, subst i)
      (simp add: initShaderProgram_result andThen_def setupOk_def gl_getAttribLocation_def
        gl_getUniformLocation_def initBuffers_def gl_createBuffer_def call_def f Let_def
        render2_calls drawScene2_calls getDynamicColor_value)
qed

lemma script2_scheduled:
  "setupOk h vertexShaderSource fragmentShaderSource2 \<Longrightarrow> 0 < scheduled (snd (script2 h w0))"
proof -
  define w1 where "w1 = snd (initShaderProgram h vertexShaderSource fragmentShaderSource2 w0)"
  assume ok: "setupOk h vertexShaderSource fragmentShaderSource2"
  have i: "initShaderProgram h vertexShaderSource fragmentShaderSource2 w0 =
      (fst (initShaderProgram h vertexShaderSource fragmentShaderSource2 w0), w1)"
    by (simp add: w1_def)
  show ?thesis
    using ok
    by (subst script2_def, subst i)
      (simp add: initShaderProgram_result andThen_def setupOk_def gl_getAttribLocation_def
        gl_getUniformLocation_def Let_def render2_scheduled split: prod.splits)
qed

lemma page2_unfold:
  "page2 h sizes w0 =
     (if setupOk h vertexShaderSource fragmentShaderSource2
      then repaints2 h (projr (fst (script2 h w0))) sizes (snd (script2 h w0))
      else snd (script2 h w0))"
proof -
  have s: "script2 h w0 = (fst (script2 h w0), snd (script2 h w0))"
    by simp
  show ?thesis
    by (subst page2_def, subst s) (simp add: script2_result)
qed

lemma script2_prefix: "\<exists>xs. calls (snd (script2 h w0)) = calls w0 @ xs"
  by (simp add: script2_calls initShaderProgram_calls)

lemma page2_prefix: "\<exists>xs. calls (page2 h sizes w0) = calls w0 @ xs"
proof (cases "setupOk h vertexShaderSource fragmentShaderSource2")
  case True
  obtain xs where "calls (page2 h sizes w0) = calls (snd (script2 h w0)) @ xs"
    using repaints2_prefix [of h "projr (fst (script2 h w0))" sizes "snd (script2 h w0)"] True
    by (auto simp: page2_unfold)
  moreover obtain ys where "calls (snd (script2 h w0)) = calls w0 @ ys"
    using script2_prefix by blast
  ultimately show ?thesis by simp
next
  case False
  then show ?thesis by (simp add: page2_unfold script2_prefix)
qed

lemma page2_filter:
  assumes "\<And>w. filter P (calls (render2 h (projr (fst (script2 h w0))) w)) =
      filter P (calls w) @ F"
  shows "filter P (issued w0 (page2 h sizes w0)) =
    filter P (issued w0 (snd (script2 h w0))) @
    (if setupOk h vertexShaderSource fragmentShaderSource2
     then concat (replicate (length sizes) F) else [])"
proof (cases "setupOk h vertexShaderSource fragmentShaderSource2")
  case True
  have "filter P (calls (page2 h sizes w0)) =
      filter P (calls (snd (script2 h w0))) @ concat (replicate (length sizes) F)"
    using repaints2_filter [of P h "projr (fst (script2 h w0))" F "snd (script2 h w0)" sizes]
      assms script2_scheduled [OF True, of w0] True
    by (simp add: page2_unfold)
  then show ?thesis
    using page2_prefix [of h sizes w0] script2_prefix [of h w0] True
    by (auto simp: issued_def)
next
  case False
  then show ?thesis by (simp add: page2_unfold)
qed

section \<open>The claims\<close>

subsection \<open>One draw per frame\<close>

text \<open>
  C1. Every iteration of the frame loop (every run of \<open>render\<close>) issues exactly one
  indexed draw of triangles, over all the indices of the script: 6 in the first
  script, 12 in the second. The iteration starts by setting the clear colour to
  (0, 0, 0, 1), clearing the colour and depth buffers and enabling the depth test, and
  the draw is its last call. A page whose shader setup succeeded runs the script's
  own first \<open>render()\<close> and one iteration per repaint, and draws once in each; a page
  whose setup failed ends in an exception before its first \<open>render()\<close> and never
  draws.
\<close>

theorem frame_draws_once:
  "take 3 (issued w1 (render1 h g1 w1)) =
     [ClearColor 0 0 0 1, Clear (COLOR_BUFFER_BIT OR DEPTH_BUFFER_BIT), Enable DEPTH_TEST]
   \<and> filter isDraw (issued w1 (render1 h g1 w1)) =
       [DrawElements TRIANGLES (length indices1) UNSIGNED_SHORT 0]
   \<and> last (issued w1 (render1 h g1 w1)) = DrawElements TRIANGLES 6 UNSIGNED_SHORT 0
   \<and> take 3 (issued w2 (render2 h g2 w2)) =
       [ClearColor 0 0 0 1, Clear (COLOR_BUFFER_BIT OR DEPTH_BUFFER_BIT), Enable DEPTH_TEST]
   \<and> filter isDraw (issued w2 (render2 h g2 w2)) =
       [DrawElements TRIANGLES (length indices2) UNSIGNED_SHORT 0]
   \<and> last (issued w2 (render2 h g2 w2)) = DrawElements TRIANGLES 12 UNSIGNED_SHORT 0
   \<and> filter isDraw (issued w (page1 h sizes w)) =
       (if setupOk h vertexShaderSource fragmentShaderSource1
        then replicate (Suc (length sizes)) (DrawElements TRIANGLES 6 UNSIGNED_SHORT 0)
        else [])
   \<and> filter isDraw (issued w (page2 h sizes w)) =
       (if setupOk h vertexShaderSource fragmentShaderSource2
        then replicate (Suc (length sizes)) (DrawElements TRIANGLES 12 UNSIGNED_SHORT 0)
        else [])"
proof -
  have a: "take 3 (issued w1 (render1 h g1 w1)) =
     [ClearColor 0 0 0 1, Clear (COLOR_BUFFER_BIT OR DEPTH_BUFFER_BIT), Enable DEPTH_TEST]
   \<and> filter isDraw (issued w1 (render1 h g1 w1)) =
       [DrawElements TRIANGLES (length indices1) UNSIGNED_SHORT 0]
   \<and> last (issued w1 (render1 h g1 w1)) = DrawElements TRIANGLES 6 UNSIGNED_SHORT 0"
    by (simp add: render1_issued frame1_issued indices1_def)
  have b: "take 3 (issued w2 (render2 h g2 w2)) =
       [ClearColor 0 0 0 1, Clear (COLOR_BUFFER_BIT OR DEPTH_BUFFER_BIT), Enable DEPTH_TEST]
   \<and> filter isDraw (issued w2 (render2 h g2 w2)) =
       [DrawElements TRIANGLES (length indices2) UNSIGNED_SHORT 0]
   \<and> last (issued w2 (render2 h g2 w2)) = DrawElements TRIANGLES 12 UNSIGNED_SHORT 0"
    by (simp add: render2_issued frame2_issued indices2_def)
  have s1: "filter isDraw (issued w (snd (script1 h w))) =
      (if setupOk h vertexShaderSource fragmentShaderSource1
       then [DrawElements TRIANGLES 6 UNSIGNED_SHORT 0] else [])"
    by (rule issued_filter) (simp_all add: script1_calls initShaderProgram_calls)
  have s2: "filter isDraw (issued w (snd (script2 h w))) =
      (if setupOk h vertexShaderSource fragmentShaderSource2
       then [DrawElements TRIANGLES 12 UNSIGNED_SHORT 0] else [])"
    by (rule issued_filter) (simp_all add: script2_calls initShaderProgram_calls)
  have c: "filter isDraw (issued w (page1 h sizes w)) =
       (if setupOk h vertexShaderSource fragmentShaderSource1
        then replicate (Suc (length sizes)) (DrawElements TRIANGLES 6 UNSIGNED_SHORT 0)
        else [])"
    using page1_filter [of isDraw h w "[DrawElements TRIANGLES 6 UNSIGNED_SHORT 0]" sizes]
    by (simp add: render1_calls drawScene1_calls s1 concat_replicate_single)
  have d: "filter isDraw (issued w (page2 h sizes w)) =
       (if setupOk h vertexShaderSource fragmentShaderSource2
        then replicate (Suc (length sizes)) (DrawElements TRIANGLES 12 UNSIGNED_SHORT 0)
        else [])"
    using page2_filter [of isDraw h w "[DrawElements TRIANGLES 12 UNSIGNED_SHORT 0]" sizes]
    by (simp add: render2_calls drawScene2_calls s2 concat_replicate_single)
  from a b c d show ?thesis by blast
qed

subsection \<open>The tint of the second script\<close>

text \<open>
  C2. With \<open>t\<close> the clock reading of \<open>getDynamicColor\<close> in seconds, the tint is
  \<open>[(sin t + 1) / 2, (cos t + 1) / 2, (sin (0.5 t) + 1) / 2, 1]\<close>, and its red, green
  and blue channels lie between 0 and 1. Every frame of the second script sends this
  vector to the \<open>uColor\<close> uniform; its clock reading is the one after the reading that
  turns the cube.
\<close>

theorem tint_channels:
  "fst (getDynamicColor h w) =
     (let t = clock h (reads w) * 0.001
      in [(sin t + 1) / 2, (cos t + 1) / 2, (sin (0.5 * t) + 1) / 2, 1])
   \<and> 0 \<le> fst (getDynamicColor h w) ! 0 \<and> fst (getDynamicColor h w) ! 0 \<le> 1
   \<and> 0 \<le> fst (getDynamicColor h w) ! 1 \<and> fst (getDynamicColor h w) ! 1 \<le> 1
   \<and> 0 \<le> fst (getDynamicColor h w) ! 2 \<and> fst (getDynamicColor h w) ! 2 \<le> 1
   \<and> tints (issued w (render2 h g w)) =
       [(uColor (uniformLocations (programInfo g)),
         fst (getDynamicColor h (w\<lparr>reads := Suc (reads w)\<rparr>)))]"
proof -
  have v: "fst (getDynamicColor h w) =
     (let t = clock h (reads w) * 0.001
      in [(sin t + 1) / 2, (cos t + 1) / 2, (sin (0.5 * t) + 1) / 2, 1])"
    by (simp add: getDynamicColor_value Let_def mult.commute)
  have r: "0 \<le> fst (getDynamicColor h w) ! 0 \<and> fst (getDynamicColor h w) ! 0 \<le> 1"
    using half_unit [OF sin_ge_minus_one sin_le_one] by (simp add: getDynamicColor_value)
  have g: "0 \<le> fst (getDynamicColor h w) ! 1 \<and> fst (getDynamicColor h w) ! 1 \<le> 1"
    using half_unit [OF cos_ge_minus_one cos_le_one] by (simp add: getDynamicColor_value)
  have b: "0 \<le> fst (getDynamicColor h w) ! 2 \<and> fst (getDynamicColor h w) ! 2 \<le> 1"
    using half_unit [OF sin_ge_minus_one sin_le_one] by (simp add: getDynamicColor_value)
  have t: "tints (issued w (render2 h g w)) =
       [(uColor (uniformLocations (programInfo g)),
         fst (getDynamicColor h (w\<lparr>reads := Suc (reads w)\<rparr>)))]"
    by (simp add: render2_issued frame2_issued)
  from v r g b t show ?thesis by blast
qed

text \<open>
  C10. Whatever the clock reads, the tint has four components and the fourth, alpha,
  is 1.
\<close>

theorem tint_alpha:
  "length (fst (getDynamicColor h w)) = 4 \<and> fst (getDynamicColor h w) ! 3 = 1"
  by (simp add: getDynamicColor_value)

subsection \<open>The vertex and index data\<close>

text \<open>
  C5. In both scripts the vertex array is a whole number of vertices of 6 floats (4
  vertices in the first script, 8 in the second), and every index is smaller than the
  number of vertices.
\<close>

theorem vertex_and_index_arrays:
  "length positions1 mod 6 = 0 \<and> length positions1 div 6 = 4
   \<and> list_all (\<lambda>i. unat i < length positions1 div 6) indices1
   \<and> length positions2 mod 6 = 0 \<and> length positions2 div 6 = 8
   \<and> list_all (\<lambda>i. unat i < length positions2 div 6) indices2"
  by (simp add: positions1_def positions2_def indices1_def indices2_def)

text \<open>
  C6. Every frame of either script points the position attribute at byte offset 0
  and the colour attribute at the offset of 3 floats (a float is 4 bytes), both with
  a stride of 6 floats and 3 components each; these are its only attribute pointers.
  Its one draw, of triangles over all the indices, is the last call of the frame.
\<close>

theorem attribute_layout:
  "filter isPointer (issued w1 (drawScene1 h g1 w1)) =
     [VertexAttribPointer (vertexPosition (attribLocations (programInfo g1)))
        3 FLOAT False (6 * 4) 0,
      VertexAttribPointer (vertexColor (attribLocations (programInfo g1)))
        3 FLOAT False (6 * 4) (3 * 4)]
   \<and> filter isDraw (issued w1 (drawScene1 h g1 w1)) =
       [DrawElements TRIANGLES (length indices1) UNSIGNED_SHORT 0]
   \<and> last (issued w1 (drawScene1 h g1 w1)) =
       DrawElements TRIANGLES (length indices1) UNSIGNED_SHORT 0
   \<and> filter isPointer (issued w2 (drawScene2 h g2 w2)) =
     [VertexAttribPointer (vertexPosition (attribLocations (programInfo g2)))
        3 FLOAT False (6 * 4) 0,
      VertexAttribPointer (vertexColor (attribLocations (programInfo g2)))
        3 FLOAT False (6 * 4) (3 * 4)]
   \<and> filter isDraw (issued w2 (drawScene2 h g2 w2)) =
       [DrawElements TRIANGLES (length indices2) UNSIGNED_SHORT 0]
   \<and> last (issued w2 (drawScene2 h g2 w2)) =
       DrawElements TRIANGLES (length indices2) UNSIGNED_SHORT 0"
  by (simp add: frame1_issued frame2_issued indices1_def indices2_def)

subsection \<open>The two matrices\<close>

text \<open>
  C7. Time is what the page's clock reads (\<open>Date.now()\<close>, milliseconds since the
  epoch), taken in seconds. The model-view matrix of a frame is the translation by (0, 0, -6) followed
  by a rotation about the Y axis (0, 1, 0) by that time as an angle. As a function of
  the clock reading the angle is non-decreasing; it is 0 when the clock reads 0 and
  \<open>pi\<close> when the clock reads \<open>pi\<close> seconds.
\<close>

theorem modelView_rotation:
  "modelView1 h g1 w1 =
     (modelViewMatrix (uniformLocations (programInfo g1)),
      Mat4_rotate (Mat4_translate Mat4_create (0, 0, - 6)) (clock h (reads w1) * 0.001) (0, 1, 0))
   \<and> modelView2 h g2 w2 =
     (modelViewMatrix (uniformLocations (programInfo g2)),
      Mat4_rotate (Mat4_translate Mat4_create (0, 0, - 6)) (clock h (reads w2) * 0.001) (0, 1, 0))
   \<and> mono (\<lambda>t. rotation (snd (modelView1 (h\<lparr>clock := \<lambda>k. t\<rparr>) g1 w1)))
   \<and> mono (\<lambda>t. rotation (snd (modelView2 (h\<lparr>clock := \<lambda>k. t\<rparr>) g2 w2)))
   \<and> rotation (snd (modelView1 (h\<lparr>clock := \<lambda>k. 0\<rparr>) g1 w1)) = 0
   \<and> rotation (snd (modelView2 (h\<lparr>clock := \<lambda>k. 0\<rparr>) g2 w2)) = 0
   \<and> rotation (snd (modelView1 (h\<lparr>clock := \<lambda>k. 1000 * pi\<rparr>) g1 w1)) = pi
   \<and> rotation (snd (modelView2 (h\<lparr>clock := \<lambda>k. 1000 * pi\<rparr>) g2 w2)) = pi"
  by (simp add: modelView1_def modelView2_def frame1_issued frame2_issued mono_def)

text \<open>
  C8. The projection matrix of a frame is the perspective matrix of a field of view
  of 45 degrees, the aspect ratio of the canvas, the near plane 0.1 and the far plane
  100. Nothing else enters it: two frames with the same aspect ratio, at whatever
  times and on whatever pages, send the same projection matrix.
\<close>

theorem projection_from_aspect:
  "projection1 h g1 w1 =
     (projectionMatrix (uniformLocations (programInfo g1)),
      Mat4_perspective (45 * pi / 180) (divide_js (canvas_width w1) (canvas_height w1)) 0.1 100.0)
   \<and> projection2 h g2 w2 =
     (projectionMatrix (uniformLocations (programInfo g2)),
      Mat4_perspective (45 * pi / 180) (divide_js (canvas_width w2) (canvas_height w2)) 0.1 100.0)
   \<and> (divide_js (canvas_width w1) (canvas_height w1) =
         divide_js (canvas_width w1') (canvas_height w1')
        \<longrightarrow> snd (projection1 h g1 w1) = snd (projection1 h' g1' w1'))
   \<and> (divide_js (canvas_width w2) (canvas_height w2) =
         divide_js (canvas_width w2') (canvas_height w2')
        \<longrightarrow> snd (projection2 h g2 w2) = snd (projection2 h' g2' w2'))"
  by (simp add: projection1_def projection2_def frame1_issued frame2_issued)

theorem projection_from_aspect_witness:
  "snd (projection1 rejectingHost nullGlobals1 emptyWorld) =
     snd (projection1 workingHost linkedGlobals1
            (emptyWorld\<lparr>reads := 7, canvas_width := 1280, canvas_height := 960\<rparr>))
   \<and> snd (projection2 rejectingHost nullGlobals2 emptyWorld) =
     snd (projection2 workingHost linkedGlobals2
            (emptyWorld\<lparr>reads := 7, canvas_width := 1280, canvas_height := 960\<rparr>))"
proof -
  let ?w = "emptyWorld\<lparr>reads := 7, canvas_width := 1280, canvas_height := 960\<rparr>"
  have same: "divide_js (canvas_width emptyWorld) (canvas_height emptyWorld) =
      divide_js (canvas_width ?w) (canvas_height ?w)"
    by (simp add: divide_js_def emptyWorld_def)
  show ?thesis
    using same
      projection_from_aspect [of rejectingHost nullGlobals1 emptyWorld nullGlobals2 emptyWorld ?w
        workingHost linkedGlobals1 ?w linkedGlobals2]
    by blast
qed

subsection \<open>Failures of shader setup\<close>

text \<open>
  C3, as the code has it. Either failure is found by the status query that directly
  follows the call that can fail (\<open>compileShader\<close>, \<open>linkProgram\<close>), and the
  diagnostic text that the context holds for the failed object is written to the
  console. A rejected stage is deleted on the context and null is returned in its
  place. A link failure is reached only with two compiled stages; then null is
  returned in place of the program, and the program itself is not deleted: the query
  for its log is the last call of \<open>initShaderProgram\<close>, and the context still holds
  the program, unlinked, with its two stages attached.
\<close>

theorem failures_logged_stage_deleted:
  "(\<not> compiles h ty src \<longrightarrow>
      fst (createShader h ty src w) = None
      \<and> issued w (snd (createShader h ty src w)) =
          [CreateShader ty, ShaderSource (nextId w) src, CompileShader (nextId w),
           GetShaderParameter (nextId w) COMPILE_STATUS,
           GetShaderInfoLog (nextId w), DeleteShader (nextId w)]
      \<and> console (snd (createShader h ty src w)) =
          console w @ [(''Shader compilation failed:'', shaderLog h ty src)]
      \<and> shaders (snd (createShader h ty src w)) (nextId w) = None)
   \<and> (compiles h VERTEX_SHADER vs \<and> compiles h FRAGMENT_SHADER fs
       \<and> \<not> links h [stage h VERTEX_SHADER vs, stage h FRAGMENT_SHADER fs] \<longrightarrow>
      fst (initShaderProgram h vs fs w) = Inr None
      \<and> issued w (snd (initShaderProgram h vs fs w)) =
          [CreateShader VERTEX_SHADER, ShaderSource (nextId w) vs, CompileShader (nextId w),
           GetShaderParameter (nextId w) COMPILE_STATUS,
           CreateShader FRAGMENT_SHADER, ShaderSource (Suc (nextId w)) fs,
           CompileShader (Suc (nextId w)), GetShaderParameter (Suc (nextId w)) COMPILE_STATUS,
           CreateProgram,
           AttachShader (Suc (Suc (nextId w))) (Some (nextId w)),
           AttachShader (Suc (Suc (nextId w))) (Some (Suc (nextId w))),
           LinkProgram (Suc (Suc (nextId w))),
           GetProgramParameter (Suc (Suc (nextId w))) LINK_STATUS,
           GetProgramInfoLog (Suc (Suc (nextId w)))]
      \<and> console (snd (initShaderProgram h vs fs w)) =
          console w @
          [(''Shader program linking failed:'',
            programLog h [stage h VERTEX_SHADER vs, stage h FRAGMENT_SHADER fs])]
      \<and> programs (snd (initShaderProgram h vs fs w)) (Suc (Suc (nextId w))) =
          Some \<lparr>attached = [nextId w, Suc (nextId w)], linked = False\<rparr>)"
proof -
  have a: "\<not> compiles h ty src \<longrightarrow>
      fst (createShader h ty src w) = None
      \<and> issued w (snd (createShader h ty src w)) =
          [CreateShader ty, ShaderSource (nextId w) src, CompileShader (nextId w),
           GetShaderParameter (nextId w) COMPILE_STATUS,
           GetShaderInfoLog (nextId w), DeleteShader (nextId w)]
      \<and> console (snd (createShader h ty src w)) =
          console w @ [(''Shader compilation failed:'', shaderLog h ty src)]
      \<and> shaders (snd (createShader h ty src w)) (nextId w) = None"
    by (simp add: createShader_fail issued_def)
  have b: "fst (initShaderProgram h vs fs w) = Inr None
      \<and> issued w (snd (initShaderProgram h vs fs w)) =
          [CreateShader VERTEX_SHADER, ShaderSource (nextId w) vs, CompileShader (nextId w),
           GetShaderParameter (nextId w) COMPILE_STATUS,
           CreateShader FRAGMENT_SHADER, ShaderSource (Suc (nextId w)) fs,
           CompileShader (Suc (nextId w)), GetShaderParameter (Suc (nextId w)) COMPILE_STATUS,
           CreateProgram,
           AttachShader (Suc (Suc (nextId w))) (Some (nextId w)),
           AttachShader (Suc (Suc (nextId w))) (Some (Suc (nextId w))),
           LinkProgram (Suc (Suc (nextId w))),
           GetProgramParameter (Suc (Suc (nextId w))) LINK_STATUS,
           GetProgramInfoLog (Suc (Suc (nextId w)))]
      \<and> console (snd (initShaderProgram h vs fs w)) =
          console w @
          [(''Shader program linking failed:'',
            programLog h [stage h VERTEX_SHADER vs, stage h FRAGMENT_SHADER fs])]
      \<and> programs (snd (initShaderProgram h vs fs w)) (Suc (Suc (nextId w))) =
          Some \<lparr>attached = [nextId w, Suc (nextId w)], linked = False\<rparr>"
    if v: "compiles h VERTEX_SHADER vs" and f: "compiles h FRAGMENT_SHADER fs"
      and l: "\<not> links h [stage h VERTEX_SHADER vs, stage h FRAGMENT_SHADER fs]"
  proof -
    have r: "fst (initShaderProgram h vs fs w) = Inr None"
      using v f l by (simp add: initShaderProgram_result)
    have c: "issued w (snd (initShaderProgram h vs fs w)) =
          [CreateShader VERTEX_SHADER, ShaderSource (nextId w) vs, CompileShader (nextId w),
           GetShaderParameter (nextId w) COMPILE_STATUS,
           CreateShader FRAGMENT_SHADER, ShaderSource (Suc (nextId w)) fs,
           CompileShader (Suc (nextId w)), GetShaderParameter (Suc (nextId w)) COMPILE_STATUS,
           CreateProgram,
           AttachShader (Suc (Suc (nextId w))) (Some (nextId w)),
           AttachShader (Suc (Suc (nextId w))) (Some (Suc (nextId w))),
           LinkProgram (Suc (Suc (nextId w))),
           GetProgramParameter (Suc (Suc (nextId w))) LINK_STATUS,
           GetProgramInfoLog (Suc (Suc (nextId w)))]"
      using v f l by (intro issued_append) (simp add: initShaderProgram_calls)
    have o: "console (snd (initShaderProgram h vs fs w)) =
          console w @
          [(''Shader program linking failed:'',
            programLog h [stage h VERTEX_SHADER vs, stage h FRAGMENT_SHADER fs])]"
      using v f l by (simp add: initShaderProgram_console)
    have p: "programs (snd (initShaderProgram h vs fs w)) (Suc (Suc (nextId w))) =
          Some \<lparr>attached = [nextId w, Suc (nextId w)], linked = False\<rparr>"
      using l by (simp add: initShaderProgram_program [OF v f])
    from r c o p show ?thesis by blast
  qed
  from a b show ?thesis by blast
qed

theorem failures_logged_stage_deleted_witness:
  "createShader rejectingHost FRAGMENT_SHADER ''void main('' emptyWorld =
     (None,
      emptyWorld\<lparr>calls := [CreateShader FRAGMENT_SHADER, ShaderSource 0 ''void main('',
                   CompileShader 0, GetShaderParameter 0 COMPILE_STATUS,
                   GetShaderInfoLog 0, DeleteShader 0],
                 nextId := 1,
                 console := [(''Shader compilation failed:'', ''ERROR: 0:1: syntax error'')]\<rparr>)
   \<and> fst (initShaderProgram linkFailingHost ''void main() {}'' ''void main() {}'' emptyWorld) =
       Inr None
   \<and> console (snd (initShaderProgram linkFailingHost ''void main() {}'' ''void main() {}''
         emptyWorld)) =
       [(''Shader program linking failed:'', ''error: varyings do not match'')]
   \<and> last (issued emptyWorld
         (snd (initShaderProgram linkFailingHost ''void main() {}'' ''void main() {}''
                emptyWorld))) =
       GetProgramInfoLog 2"
proof -
  have c: "createShader rejectingHost FRAGMENT_SHADER ''void main('' emptyWorld =
     (None,
      emptyWorld\<lparr>calls := [CreateShader FRAGMENT_SHADER, ShaderSource 0 ''void main('',
                   CompileShader 0, GetShaderParameter 0 COMPILE_STATUS,
                   GetShaderInfoLog 0, DeleteShader 0],
                 nextId := 1,
                 console := [(''Shader compilation failed:'', ''ERROR: 0:1: syntax error'')]\<rparr>)"
    by (simp add: createShader_fail rejectingHost_def emptyWorld_def)
  have l: "compiles linkFailingHost VERTEX_SHADER ''void main() {}''
      \<and> compiles linkFailingHost FRAGMENT_SHADER ''void main() {}''
      \<and> \<not> links linkFailingHost [stage linkFailingHost VERTEX_SHADER ''void main() {}'',
                                   stage linkFailingHost FRAGMENT_SHADER ''void main() {}'']"
    by (simp add: linkFailingHost_def)
  have e: "nextId emptyWorld = 0" "console emptyWorld = []"
    by (simp_all add: emptyWorld_def)
  have g: "programLog linkFailingHost ss = ''error: varyings do not match''" for ss
    by (simp add: linkFailingHost_def)
  show ?thesis
    using failures_logged_stage_deleted
      [of rejectingHost FRAGMENT_SHADER "''void main(''" emptyWorld
        "''void main() {}''" "''void main() {}''"]
      failures_logged_stage_deleted
      [of linkFailingHost FRAGMENT_SHADER "''void main(''" emptyWorld
        "''void main() {}''" "''void main() {}''"] c l
    by (simp add: e g)
qed

theorem failed_program_not_discarded:
  "fst (initShaderProgram linkFailingHost ''void main() {}'' ''void main() {}'' emptyWorld) =
     Inr None
   \<and> programs
       (snd (initShaderProgram linkFailingHost ''void main() {}'' ''void main() {}'' emptyWorld))
       2 = Some \<lparr>attached = [0, 1], linked = False\<rparr>
   \<and> shaders
       (snd (initShaderProgram linkFailingHost ''void main() {}'' ''void main() {}'' emptyWorld))
       0 \<noteq> None"
proof -
  have c: "compiles linkFailingHost VERTEX_SHADER ''void main() {}''"
    "compiles linkFailingHost FRAGMENT_SHADER ''void main() {}''"
    by (simp_all add: linkFailingHost_def)
  have l: "\<not> links linkFailingHost ss" for ss
    by (simp add: linkFailingHost_def)
  have e: "nextId emptyWorld = 0"
    by (simp add: emptyWorld_def)
  have s: "shaders
       (snd (initShaderProgram linkFailingHost ''void main() {}'' ''void main() {}'' emptyWorld))
       0 \<noteq> None"
    by (simp add: initShaderProgram_def createShader_ok c gl_createProgram_def
        gl_attachShader_def gl_linkProgram_def gl_getProgramParameter_def
        gl_getProgramInfoLog_def console_error_def call_def stages_def andThen_def Let_def e)
  show ?thesis
    using initShaderProgram_program [OF c, of emptyWorld] s
    by (simp add: initShaderProgram_result c l e numeral_2_eq_2)
qed




text \<open>
  C4, as the code has it. Whatever fails, a page compiles each of its two stages once
  and links at most once: nothing is tried again. \<open>render\<close> and \<open>drawScene\<close> do not
  look at the program: run with a null \<open>shaderProgram\<close> they make null the current
  program and draw. But a page whose setup failed never runs them. A rejected stage
  makes \<open>attachShader\<close> raise inside \<open>initShaderProgram\<close>, and a program that did not
  link makes \<open>getAttribLocation(null, 'aPosition')\<close> raise right after it; the
  exception ends the script before its first \<open>render()\<close>, so no callback is waiting
  at any repaint, and the page makes no program current and draws nothing.
\<close>

theorem failed_setup_stops_page:
  "filter isSetup (issued w (page1 h sizes w)) =
     [CompileShader (nextId w), CompileShader (Suc (nextId w))] @
     (if compiles h VERTEX_SHADER vertexShaderSource
         \<and> compiles h FRAGMENT_SHADER fragmentShaderSource1
      then [LinkProgram (Suc (Suc (nextId w)))] else [])
   \<and> filter isSetup (issued w (page2 h sizes w)) =
     [CompileShader (nextId w), CompileShader (Suc (nextId w))] @
     (if compiles h VERTEX_SHADER vertexShaderSource
         \<and> compiles h FRAGMENT_SHADER fragmentShaderSource2
      then [LinkProgram (Suc (Suc (nextId w)))] else [])
   \<and> filter (\<lambda>c. isUse c \<or> isDraw c) (issued w (render1 h (g1\<lparr>shaderProgram := None\<rparr>) w)) =
       [UseProgram None, DrawElements TRIANGLES 6 UNSIGNED_SHORT 0]
   \<and> filter (\<lambda>c. isUse c \<or> isDraw c) (issued w (render2 h (g2\<lparr>shaderProgram := None\<rparr>) w)) =
       [UseProgram None, DrawElements TRIANGLES 12 UNSIGNED_SHORT 0]
   \<and> filter (\<lambda>c. isUse c \<or> isDraw c) (issued w (page1 h sizes w)) =
       (if setupOk h vertexShaderSource fragmentShaderSource1
        then concat (replicate (Suc (length sizes))
               [UseProgram (Some (Suc (Suc (nextId w)))),
                DrawElements TRIANGLES 6 UNSIGNED_SHORT 0])
        else [])
   \<and> filter (\<lambda>c. isUse c \<or> isDraw c) (issued w (page2 h sizes w)) =
       (if setupOk h vertexShaderSource fragmentShaderSource2
        then concat (replicate (Suc (length sizes))
               [UseProgram (Some (Suc (Suc (nextId w)))),
                DrawElements TRIANGLES 12 UNSIGNED_SHORT 0])
        else [])
   \<and> (\<not> setupOk h vertexShaderSource fragmentShaderSource1 \<longrightarrow>
        fst (script1 h w) =
          Inl (TypeError
            (if compiles h VERTEX_SHADER vertexShaderSource
                \<and> compiles h FRAGMENT_SHADER fragmentShaderSource1
             then GetAttribLocation None ''aPosition''
             else AttachShader (Suc (Suc (nextId w))) None)))
   \<and> (\<not> setupOk h vertexShaderSource fragmentShaderSource2 \<longrightarrow>
        fst (script2 h w) =
          Inl (TypeError
            (if compiles h VERTEX_SHADER vertexShaderSource
                \<and> compiles h FRAGMENT_SHADER fragmentShaderSource2
             then GetAttribLocation None ''aPosition''
             else AttachShader (Suc (Suc (nextId w))) None)))"
proof -
  have s1: "filter isSetup (issued w (snd (script1 h w))) =
     [CompileShader (nextId w), CompileShader (Suc (nextId w))] @
     (if compiles h VERTEX_SHADER vertexShaderSource
         \<and> compiles h FRAGMENT_SHADER fragmentShaderSource1
      then [LinkProgram (Suc (Suc (nextId w)))] else [])"
    by (rule issued_filter) (simp_all add: script1_calls initShaderProgram_calls)
  have s2: "filter isSetup (issued w (snd (script2 h w))) =
     [CompileShader (nextId w), CompileShader (Suc (nextId w))] @
     (if compiles h VERTEX_SHADER vertexShaderSource
         \<and> compiles h FRAGMENT_SHADER fragmentShaderSource2
      then [LinkProgram (Suc (Suc (nextId w)))] else [])"
    by (rule issued_filter) (simp_all add: script2_calls initShaderProgram_calls)
  have a: "filter isSetup (issued w (page1 h sizes w)) =
     [CompileShader (nextId w), CompileShader (Suc (nextId w))] @
     (if compiles h VERTEX_SHADER vertexShaderSource
         \<and> compiles h FRAGMENT_SHADER fragmentShaderSource1
      then [LinkProgram (Suc (Suc (nextId w)))] else [])"
    using page1_filter [of isSetup h w "[]" sizes]
    by (simp add: render1_calls drawScene1_calls s1)
  have b: "filter isSetup (issued w (page2 h sizes w)) =
     [CompileShader (nextId w), CompileShader (Suc (nextId w))] @
     (if compiles h VERTEX_SHADER vertexShaderSource
         \<and> compiles h FRAGMENT_SHADER fragmentShaderSource2
      then [LinkProgram (Suc (Suc (nextId w)))] else [])"
    using page2_filter [of isSetup h w "[]" sizes]
    by (simp add: render2_calls drawScene2_calls s2)
  have r1: "filter (\<lambda>c. isUse c \<or> isDraw c)
        (issued w (render1 h (g1\<lparr>shaderProgram := None\<rparr>) w)) =
       [UseProgram None, DrawElements TRIANGLES 6 UNSIGNED_SHORT 0]"
    by (simp add: render1_issued frame1_issued)
  have r2: "filter (\<lambda>c. isUse c \<or> isDraw c)
        (issued w (render2 h (g2\<lparr>shaderProgram := None\<rparr>) w)) =
       [UseProgram None, DrawElements TRIANGLES 12 UNSIGNED_SHORT 0]"
    by (simp add: render2_issued frame2_issued)
  have u1: "filter (\<lambda>c. isUse c \<or> isDraw c) (issued w (snd (script1 h w))) =
      (if setupOk h vertexShaderSource fragmentShaderSource1
       then [UseProgram (Some (Suc (Suc (nextId w)))), DrawElements TRIANGLES 6 UNSIGNED_SHORT 0]
       else [])"
    by (rule issued_filter) (simp_all add: script1_calls initShaderProgram_calls)
  have u2: "filter (\<lambda>c. isUse c \<or> isDraw c) (issued w (snd (script2 h w))) =
      (if setupOk h vertexShaderSource fragmentShaderSource2
       then [UseProgram (Some (Suc (Suc (nextId w)))), DrawElements TRIANGLES 12 UNSIGNED_SHORT 0]
       else [])"
    by (rule issued_filter) (simp_all add: script2_calls initShaderProgram_calls)
  have c: "filter (\<lambda>c. isUse c \<or> isDraw c) (issued w (page1 h sizes w)) =
       (if setupOk h vertexShaderSource fragmentShaderSource1
        then concat (replicate (Suc (length sizes))
               [UseProgram (Some (Suc (Suc (nextId w)))),
                DrawElements TRIANGLES 6 UNSIGNED_SHORT 0])
        else [])"
  proof (cases "setupOk h vertexShaderSource fragmentShaderSource1")
    case True
    then have g: "shaderProgram (projr (fst (script1 h w))) = Some (Suc (Suc (nextId w)))"
      by (simp add: script1_result)
    show ?thesis
      using page1_filter [of "\<lambda>c. isUse c \<or> isDraw c" h w
          "[UseProgram (Some (Suc (Suc (nextId w)))),
            DrawElements TRIANGLES 6 UNSIGNED_SHORT 0]" sizes] True
      by (simp add: render1_calls drawScene1_calls u1 g)
  next
    case False
    then show ?thesis
      using page1_filter [of "\<lambda>c. isUse c \<or> isDraw c" h w
          "[UseProgram (shaderProgram (projr (fst (script1 h w)))),
            DrawElements TRIANGLES 6 UNSIGNED_SHORT 0]" sizes]
      by (simp add: render1_calls drawScene1_calls u1)
  qed
  have d: "filter (\<lambda>c. isUse c \<or> isDraw c) (issued w (page2 h sizes w)) =
       (if setupOk h vertexShaderSource fragmentShaderSource2
        then concat (replicate (Suc (length sizes))
               [UseProgram (Some (Suc (Suc (nextId w)))),
                DrawElements TRIANGLES 12 UNSIGNED_SHORT 0])
        else [])"
  proof (cases "setupOk h vertexShaderSource fragmentShaderSource2")
    case True
    then have g: "shaderProgram (projr (fst (script2 h w))) = Some (Suc (Suc (nextId w)))"
      by (simp add: script2_result)
    show ?thesis
      using page2_filter [of "\<lambda>c. isUse c \<or> isDraw c" h w
          "[UseProgram (Some (Suc (Suc (nextId w)))),
            DrawElements TRIANGLES 12 UNSIGNED_SHORT 0]" sizes] True
      by (simp add: render2_calls drawScene2_calls u2 g)
  next
    case False
    then show ?thesis
      using page2_filter [of "\<lambda>c. isUse c \<or> isDraw c" h w
          "[UseProgram (shaderProgram (projr (fst (script2 h w)))),
            DrawElements TRIANGLES 12 UNSIGNED_SHORT 0]" sizes]
      by (simp add: render2_calls drawScene2_calls u2)
  qed
  have e1: "\<not> setupOk h vertexShaderSource fragmentShaderSource1 \<longrightarrow>
        fst (script1 h w) =
          Inl (TypeError
            (if compiles h VERTEX_SHADER vertexShaderSource
                \<and> compiles h FRAGMENT_SHADER fragmentShaderSource1
             then GetAttribLocation None ''aPosition''
             else AttachShader (Suc (Suc (nextId w))) None))"
    by (simp add: script1_result)
  have e2: "\<not> setupOk h vertexShaderSource fragmentShaderSource2 \<longrightarrow>
        fst (script2 h w) =
          Inl (TypeError
            (if compiles h VERTEX_SHADER vertexShaderSource
                \<and> compiles h FRAGMENT_SHADER fragmentShaderSource2
             then GetAttribLocation None ''aPosition''
             else AttachShader (Suc (Suc (nextId w))) None))"
    by (simp add: script2_result)
  from a b r1 r2 c d e1 e2 show ?thesis by blast
qed

theorem failed_setup_stops_page_witness:
  "fst (script1 rejectingHost emptyWorld) = Inl (TypeError (AttachShader 2 None))
   \<and> fst (script2 rejectingHost emptyWorld) = Inl (TypeError (AttachShader 2 None))
   \<and> fst (script1 linkFailingHost emptyWorld) =
       Inl (TypeError (GetAttribLocation None ''aPosition''))
   \<and> fst (script2 linkFailingHost emptyWorld) =
       Inl (TypeError (GetAttribLocation None ''aPosition''))
   \<and> filter isSetup (issued emptyWorld (page1 rejectingHost [(640, 480)] emptyWorld)) =
       [CompileShader 0, CompileShader 1]
   \<and> filter isSetup (issued emptyWorld (page2 linkFailingHost [(640, 480)] emptyWorld)) =
       [CompileShader 0, CompileShader 1, LinkProgram 2]"
proof -
  have r: "\<not> setupOk rejectingHost vertexShaderSource fragmentShaderSource1"
    "\<not> setupOk rejectingHost vertexShaderSource fragmentShaderSource2"
    "\<not> setupOk linkFailingHost vertexShaderSource fragmentShaderSource1"
    "\<not> setupOk linkFailingHost vertexShaderSource fragmentShaderSource2"
    by (simp_all add: setupOk_def rejectingHost_def linkFailingHost_def)
  have c: "\<not> compiles rejectingHost ty src" "compiles linkFailingHost ty src" for ty src
    by (simp_all add: rejectingHost_def linkFailingHost_def)
  have e: "nextId emptyWorld = 0"
    by (simp add: emptyWorld_def)
  show ?thesis
    using failed_setup_stops_page [of emptyWorld rejectingHost "[(640, 480)]"]
      failed_setup_stops_page [of emptyWorld linkFailingHost "[(640, 480)]"] r
    by (simp add: c e numeral_2_eq_2)
qed

theorem failed_setup_draws_nothing:
  "fst (initShaderProgram linkFailingHost vertexShaderSource fragmentShaderSource1 emptyWorld) =
     Inr None
   \<and> filter (\<lambda>c. isUse c \<or> isDraw c)
       (issued emptyWorld (page1 linkFailingHost [(640, 480), (800, 600)] emptyWorld)) = []
   \<and> fst (initShaderProgram linkFailingHost vertexShaderSource fragmentShaderSource2 emptyWorld) =
     Inr None
   \<and> filter (\<lambda>c. isUse c \<or> isDraw c)
       (issued emptyWorld (page2 linkFailingHost [(640, 480), (800, 600)] emptyWorld)) = []"
proof -
  have c: "compiles linkFailingHost ty src" for ty src
    by (simp add: linkFailingHost_def)
  have l: "\<not> links linkFailingHost ss" for ss
    by (simp add: linkFailingHost_def)
  have i: "fst (initShaderProgram linkFailingHost vs fs emptyWorld) = Inr None" for vs fs
    by (simp add: initShaderProgram_result c l)
  have u1: "filter (\<lambda>c. isUse c \<or> isDraw c)
      (issued emptyWorld (snd (script1 linkFailingHost emptyWorld))) = []"
    by (rule issued_filter)
      (simp_all add: script1_calls initShaderProgram_calls setupOk_def c l)
  have u2: "filter (\<lambda>c. isUse c \<or> isDraw c)
      (issued emptyWorld (snd (script2 linkFailingHost emptyWorld))) = []"
    by (rule issued_filter)
      (simp_all add: script2_calls initShaderProgram_calls setupOk_def c l)
  have p1: "filter (\<lambda>c. isUse c \<or> isDraw c)
       (issued emptyWorld (page1 linkFailingHost [(640, 480), (800, 600)] emptyWorld)) = []"
    by (simp add: page1_unfold setupOk_def l u1)
  have p2: "filter (\<lambda>c. isUse c \<or> isDraw c)
       (issued emptyWorld (page2 linkFailingHost [(640, 480), (800, 600)] emptyWorld)) = []"
    by (simp add: page2_unfold setupOk_def l u2)
  from i p1 p2 show ?thesis by blast
qed

end
